theory Spec2Isabelle
  imports Complex_Main
begin

unbundle bit_operations_syntax

section \<open>Data model (DynamicBandpassFilter.h)\<close>

text \<open>
  The C++ class \<^verbatim>\<open>DynamicBandpassFilter\<close> is embedded as a record of its member
  variables, and every member function as a function from the object state to the new
  object state (and a result). Single-precision and double-precision numbers are
  idealised as reals, \<^verbatim>\<open>std::complex<float>\<close> as \<^typ>\<open>complex\<close>, \<^verbatim>\<open>int\<close> as
  \<^typ>\<open>int\<close> and \<^verbatim>\<open>size_t\<close> as \<^typ>\<open>nat\<close>. The functions are modelled as run by one
  thread: the mutexes are not modelled, and a state that only an interleaving with
  \<^verbatim>\<open>cleanup\<close> can produce (an initialised object whose buffers are null, a kernel of
  the wrong length) is a value of the record like any other.
\<close>

datatype Protocol = WFM | NBFM | AM | USB | LSB

datatype FilterShape = RECTANGULAR | HAMMING | BLACKMAN | KAISER

record FilterConfig =
  protocol :: Protocol
  shape :: FilterShape
  stopband_attenuation :: real
  center_frequency :: real
  bandwidth :: real
  sample_rate :: real
  ssb_carrier_offset :: real
  ssb_sharp_cutoff :: bool

record FilterStats =
  frequency_response :: real
  attenuation :: real
  is_active :: bool
  is_enabled :: bool
  samples_processed :: nat
  passband_width_hz :: real
  stopband_attenuation_db :: real
  processing_time_ms :: real
  current_center_freq :: real
  ssb_carrier_offset_hz :: real
  ssb_mode_active :: bool

text \<open>An FFTW plan records the transform size and its direction; a null plan or a null
  buffer is \<open>None\<close>.\<close>

datatype fftwf_plan = Plan (plan_size: int) (plan_forward: bool)

record DynamicBandpassFilter =
  initialized_' :: bool
  enabled_' :: bool
  parameters_changed_' :: bool
  processing_active_' :: bool
  config_' :: FilterConfig
  fft_size_' :: int
  overlap_size_' :: int
  frequency_resolution_' :: real
  forward_plan_' :: "fftwf_plan option"
  inverse_plan_' :: "fftwf_plan option"
  fft_input_' :: "complex list option"
  fft_output_' :: "complex list option"
  filter_kernel_' :: "complex list"
  passband_low_hz_' :: real
  passband_high_hz_' :: real
  current_center_freq_' :: real
  ssb_carrier_offset_' :: real
  ssb_sharp_cutoff_' :: bool
  energy_history_' :: "real list"
  energy_history_idx_' :: nat
  adaptive_alpha_' :: real
  current_stats_' :: FilterStats
  total_samples_processed_' :: nat

text \<open>
  What the filter takes from outside: the two FFTW transforms (bin \<open>k\<close> of the
  unnormalised transform of a buffer of the given size), the time the clock measured
  for a call, in microseconds, and whether \<^verbatim>\<open>output.reserve\<close> could allocate
  (\<^verbatim>\<open>std::bad_alloc\<close> otherwise, the one exception the \<^verbatim>\<open>try\<close> block of
  \<^verbatim>\<open>process\<close> can meet).
\<close>

record environment =
  execute_forward :: "int \<Rightarrow> complex list \<Rightarrow> nat \<Rightarrow> complex"
  execute_backward :: "int \<Rightarrow> complex list \<Rightarrow> nat \<Rightarrow> complex"
  elapsed_us :: int
  reserve_ok :: bool

section \<open>Protocol defaults\<close>

record ProtocolDefaults =
  passband_width :: real
  transition_width :: real
  stopband_atten :: real
  carrier_offset :: real
  sharp_cutoff :: bool

definition PROTOCOL_DEFAULTS :: "ProtocolDefaults list" where
  "PROTOCOL_DEFAULTS =
    [\<lparr>passband_width = 200000, transition_width = 0.1, stopband_atten = 60,
      carrier_offset = 0, sharp_cutoff = False\<rparr>,
     \<lparr>passband_width = 12500, transition_width = 0.15, stopband_atten = 50,
      carrier_offset = 0, sharp_cutoff = False\<rparr>,
     \<lparr>passband_width = 8000, transition_width = 0.2, stopband_atten = 40,
      carrier_offset = 0, sharp_cutoff = False\<rparr>,
     \<lparr>passband_width = 3000, transition_width = 0.05, stopband_atten = 70,
      carrier_offset = 1500, sharp_cutoff = True\<rparr>,
     \<lparr>passband_width = 3000, transition_width = 0.05, stopband_atten = 70,
      carrier_offset = - 1500, sharp_cutoff = True\<rparr>]"

text \<open>The ordinal of an enumerator, as \<^verbatim>\<open>static_cast<int>(protocol)\<close> gives it.\<close>

fun protocol_ordinal :: "Protocol \<Rightarrow> nat" where
  "protocol_ordinal WFM = 0"
| "protocol_ordinal NBFM = 1"
| "protocol_ordinal AM = 2"
| "protocol_ordinal USB = 3"
| "protocol_ordinal LSB = 4"

definition defaults_of :: "Protocol \<Rightarrow> ProtocolDefaults" where
  "defaults_of p = PROTOCOL_DEFAULTS ! protocol_ordinal p"

section \<open>Construction, teardown and initialisation\<close>

definition zero_stats :: FilterStats where
  "zero_stats =
    \<lparr>frequency_response = 0, attenuation = 0, is_active = False, is_enabled = False,
     samples_processed = 0, passband_width_hz = 0, stopband_attenuation_db = 0,
     processing_time_ms = 0, current_center_freq = 0, ssb_carrier_offset_hz = 0,
     ssb_mode_active = False\<rparr>"

definition constructor :: DynamicBandpassFilter where
  "constructor =
    \<lparr>initialized_' = False, enabled_' = False, parameters_changed_' = True,
     processing_active_' = False,
     config_' = \<lparr>protocol = WFM, shape = BLACKMAN, stopband_attenuation = 75,
                center_frequency = 0, bandwidth = 200000, sample_rate = 2048000,
                ssb_carrier_offset = 0, ssb_sharp_cutoff = False\<rparr>,
     fft_size_' = 0, overlap_size_' = 0, frequency_resolution_' = 0,
     forward_plan_' = None, inverse_plan_' = None, fft_input_' = None, fft_output_' = None,
     filter_kernel_' = [], passband_low_hz_' = 0, passband_high_hz_' = 0,
     current_center_freq_' = 0, ssb_carrier_offset_' = 0, ssb_sharp_cutoff_' = False,
     energy_history_' = replicate 32 0, energy_history_idx_' = 0, adaptive_alpha_' = 0.05,
     current_stats_' = zero_stats\<lparr>is_enabled := False, ssb_mode_active := False\<rparr>,
     total_samples_processed_' = 0\<rparr>"

definition cleanup :: "DynamicBandpassFilter \<Rightarrow> DynamicBandpassFilter" where
  "cleanup s =
    s\<lparr>forward_plan_' := None, inverse_plan_' := None, fft_input_' := None,
      fft_output_' := None, filter_kernel_' := [], energy_history_' := [],
      initialized_' := False\<rparr>"

definition isValidForProcessing :: "DynamicBandpassFilter \<Rightarrow> bool" where
  "isValidForProcessing s =
    (initialized_' s \<and> enabled_' s \<and> fft_size_' s > 0 \<and> frequency_resolution_' s > 0)"

text \<open>\<^verbatim>\<open>std::vector::resize(n, v)\<close>: truncate, or pad with copies of \<open>v\<close>.\<close>

definition resize_vec :: "nat \<Rightarrow> 'a \<Rightarrow> 'a list \<Rightarrow> 'a list" where
  "resize_vec n v xs = take n xs @ replicate (n - length xs) v"

section \<open>Kernel design\<close>

text \<open>The frequency of FFT bin \<open>i\<close>, as both design loops compute it.\<close>

definition bin_frequency :: "int \<Rightarrow> real \<Rightarrow> int \<Rightarrow> real" where
  "bin_frequency fft_size freq_res i =
    (if i \<le> fft_size div 2 then of_int i * freq_res
     else of_int (i - fft_size) * freq_res)"

text \<open>The body of the loop of \<^verbatim>\<open>safelyUpdateKernel\<close>: the gain stored in bin \<open>i\<close>.\<close>

definition kernel_bin ::
  "FilterConfig \<Rightarrow> bool \<Rightarrow> real \<Rightarrow> real \<Rightarrow> real \<Rightarrow> real \<Rightarrow> int \<Rightarrow> int \<Rightarrow> complex" where
  "kernel_bin config_copy sharp center low_cutoff high_cutoff freq_res fft_size i =
    (let freq = bin_frequency fft_size freq_res i;
         response =
           (if protocol config_copy = USB \<or> protocol config_copy = LSB then
              (if sharp then
                 (let transition = freq_res * 1;
                      response =
                        (if freq \<ge> low_cutoff \<and> freq \<le> high_cutoff then 1
                         else if freq \<ge> low_cutoff - transition \<and> freq < low_cutoff then
                           (let t = (freq - (low_cutoff - transition)) / transition
                            in t * t * (3 - 2 * t))
                         else if freq > high_cutoff \<and> freq \<le> high_cutoff + transition then
                           (let t = ((high_cutoff + transition) - freq) / transition
                            in t * t * (3 - 2 * t))
                         else 0)
                  in if protocol config_copy = USB \<and> freq < center then response * 0.01
                     else if protocol config_copy = LSB \<and> freq > center then response * 0.01
                     else response)
               else (if freq \<ge> low_cutoff \<and> freq \<le> high_cutoff then 1 else 0))
            else
              (if freq \<ge> low_cutoff \<and> freq \<le> high_cutoff then 1
               else
                 (let transition = freq_res * 2
                  in if freq \<ge> low_cutoff - transition \<and> freq < low_cutoff then
                       (freq - (low_cutoff - transition)) / transition
                     else if freq > high_cutoff \<and> freq \<le> high_cutoff + transition then
                       ((high_cutoff + transition) - freq) / transition
                     else 0)));
         min_response = 10 powr (- stopband_attenuation config_copy / 20)
     in Complex (max response min_response) 0)"

definition safelyUpdateKernel :: "DynamicBandpassFilter \<Rightarrow> DynamicBandpassFilter" where
  "safelyUpdateKernel s =
    (if \<not> isValidForProcessing s then s
     else
       let fft_size = fft_size_' s;
           kernel = (if length (filter_kernel_' s) \<noteq> nat fft_size
                     then resize_vec (nat fft_size) 1 (filter_kernel_' s)
                     else filter_kernel_' s);
           low_cutoff = passband_low_hz_' s + current_center_freq_' s;
           high_cutoff = passband_high_hz_' s + current_center_freq_' s;
           freq_res = frequency_resolution_' s;
           carrier_offset' = ssb_carrier_offset_' s;
           config_copy = config_' s;
           low_cutoff = (if protocol config_copy = USB \<or> protocol config_copy = LSB
                         then low_cutoff + carrier_offset' else low_cutoff);
           high_cutoff = (if protocol config_copy = USB \<or> protocol config_copy = LSB
                          then high_cutoff + carrier_offset' else high_cutoff)
       in s\<lparr>filter_kernel_' :=
              fold (\<lambda>i k. k[i := kernel_bin config_copy (ssb_sharp_cutoff_' s)
                                    (current_center_freq_' s) low_cutoff high_cutoff
                                    freq_res fft_size (int i)])
                   [0..<nat fft_size] kernel\<rparr>)"

text \<open>The factor the loop of \<^verbatim>\<open>applySSBShaping\<close> multiplies bin \<open>i\<close> by.\<close>

definition suppression_factor :: "Protocol \<Rightarrow> real \<Rightarrow> real \<Rightarrow> int \<Rightarrow> int \<Rightarrow> real" where
  "suppression_factor current_protocol center_freq freq_res fft_size i =
    (let freq = bin_frequency fft_size freq_res i
     in if current_protocol = USB \<and> freq < center_freq then
          (if \<bar>freq - center_freq\<bar> < 3000 then 0.001 else 0.1)
        else if current_protocol = LSB \<and> freq > center_freq then
          (if \<bar>freq - center_freq\<bar> < 3000 then 0.001 else 0.1)
        else 1)"

definition applySSBShaping ::
  "int \<Rightarrow> real \<Rightarrow> DynamicBandpassFilter \<Rightarrow> DynamicBandpassFilter" where
  "applySSBShaping fft_size freq_res s =
    (if length (filter_kernel_' s) \<noteq> nat fft_size then s
     else
       let current_protocol = protocol (config_' s)
       in if current_protocol \<noteq> USB \<and> current_protocol \<noteq> LSB then s
          else
            let center_freq = current_center_freq_' s
            in s\<lparr>filter_kernel_' :=
                   fold (\<lambda>i k. k[i := k ! i * of_real
                                   (suppression_factor current_protocol center_freq
                                      freq_res fft_size (int i))])
                        [0..<nat fft_size] (filter_kernel_' s)\<rparr>)"

definition designSSBFilter :: "DynamicBandpassFilter \<Rightarrow> DynamicBandpassFilter" where
  "designSSBFilter s =
    (if \<not> isValidForProcessing s then s
     else
       let s1 = safelyUpdateKernel s
       in applySSBShaping (fft_size_' s1) (frequency_resolution_' s1) s1)"

definition designFilter :: "DynamicBandpassFilter \<Rightarrow> DynamicBandpassFilter" where
  "designFilter s =
    (if \<not> isValidForProcessing s then s
     else
       let current_protocol = protocol (config_' s);
           s1 = (if current_protocol = USB \<or> current_protocol = LSB
                 then designSSBFilter s else safelyUpdateKernel s)
       in s1\<lparr>current_stats_' := (current_stats_' s1)
               \<lparr>passband_width_hz := passband_high_hz_' s1 - passband_low_hz_' s1,
                current_center_freq := current_center_freq_' s1,
                ssb_carrier_offset_hz := ssb_carrier_offset_' s1,
                stopband_attenuation_db := stopband_attenuation (config_' s1),
                ssb_mode_active := (protocol (config_' s1) = USB
                                    \<or> protocol (config_' s1) = LSB)\<rparr>\<rparr>)"

text \<open>
  \<^verbatim>\<open>initialize\<close>: \<open>malloc_ok\<close> says whether both \<^verbatim>\<open>fftwf_malloc\<close> calls returned a
  buffer and \<open>plans_ok\<close> whether both plans were created; a failure of either throws,
  and the handler tears the object down and returns false.
\<close>

definition initialize ::
  "bool \<Rightarrow> bool \<Rightarrow> int \<Rightarrow> int \<Rightarrow> DynamicBandpassFilter \<Rightarrow> DynamicBandpassFilter \<times> bool" where
  "initialize malloc_ok plans_ok sample_rate' fft_size s =
    (if sample_rate' \<le> 0 \<or> fft_size < 256 \<or> (fft_size AND (fft_size - 1)) \<noteq> 0
     then (s, False)
     else
       let s1 = cleanup s;
           s2 = s1\<lparr>config_' := (config_' s1)\<lparr>sample_rate := of_int sample_rate'\<rparr>,
                   fft_size_' := fft_size,
                   frequency_resolution_' := of_int sample_rate' / of_int fft_size\<rparr>
       in if \<not> malloc_ok then (cleanup s2, False)
          else
            let s3 = s2\<lparr>fft_input_' := Some (replicate (nat fft_size) 0),
                        fft_output_' := Some (replicate (nat fft_size) 0)\<rparr>
            in if \<not> plans_ok then (cleanup s3, False)
               else
                 let s4 = s3\<lparr>forward_plan_' := Some (Plan fft_size True),
                             inverse_plan_' := Some (Plan fft_size False)\<rparr>;
                     s5 = s4\<lparr>filter_kernel_' :=
                               resize_vec (nat fft_size) 1 (filter_kernel_' s4)\<rparr>;
                     defaults = defaults_of (protocol (config_' s5));
                     half_bandwidth = passband_width defaults / 2;
                     s6 = s5\<lparr>passband_low_hz_' := - half_bandwidth,
                             passband_high_hz_' := half_bandwidth,
                             current_center_freq_' := center_frequency (config_' s5),
                             ssb_carrier_offset_' := carrier_offset defaults,
                             ssb_sharp_cutoff_' := sharp_cutoff defaults\<rparr>;
                     s7 = designFilter s6;
                     s8 = s7\<lparr>current_stats_' := zero_stats
                               \<lparr>is_enabled := enabled_' s7,
                                ssb_mode_active := (protocol (config_' s7) = USB
                                                    \<or> protocol (config_' s7) = LSB),
                                ssb_carrier_offset_hz := carrier_offset defaults\<rparr>\<rparr>
                 in (s8\<lparr>initialized_' := True, parameters_changed_' := False\<rparr>, True))"

section \<open>Configuration mutators\<close>

definition configure :: "FilterConfig \<Rightarrow> DynamicBandpassFilter \<Rightarrow> DynamicBandpassFilter" where
  "configure config s =
    (if \<not> initialized_' s then s
     else s\<lparr>config_' := config,
            ssb_carrier_offset_' := ssb_carrier_offset config,
            ssb_sharp_cutoff_' := ssb_sharp_cutoff config,
            parameters_changed_' := True\<rparr>)"

definition setEnabled :: "bool \<Rightarrow> DynamicBandpassFilter \<Rightarrow> DynamicBandpassFilter" where
  "setEnabled enabled s =
    s\<lparr>enabled_' := enabled,
      current_stats_' := (current_stats_' s)\<lparr>is_enabled := enabled\<rparr>\<rparr>"

definition setProtocol :: "Protocol \<Rightarrow> DynamicBandpassFilter \<Rightarrow> DynamicBandpassFilter" where
  "setProtocol protocol' s =
    (if \<not> initialized_' s then s
     else if protocol (config_' s) = protocol' then s
     else
       let defaults = defaults_of protocol';
           half_bandwidth = passband_width defaults / 2
       in s\<lparr>config_' := (config_' s)
                \<lparr>protocol := protocol',
                 bandwidth := passband_width defaults,
                 stopband_attenuation := stopband_atten defaults,
                 ssb_carrier_offset := carrier_offset defaults,
                 ssb_sharp_cutoff := sharp_cutoff defaults\<rparr>,
              passband_low_hz_' := - half_bandwidth,
              passband_high_hz_' := half_bandwidth,
              ssb_carrier_offset_' := carrier_offset defaults,
              ssb_sharp_cutoff_' := sharp_cutoff defaults,
              parameters_changed_' := True,
              current_stats_' := (current_stats_' s)
                \<lparr>ssb_mode_active := (protocol' = USB \<or> protocol' = LSB),
                 ssb_carrier_offset_hz := carrier_offset defaults\<rparr>\<rparr>)"

definition setPassband :: "real \<Rightarrow> real \<Rightarrow> DynamicBandpassFilter \<Rightarrow> DynamicBandpassFilter" where
  "setPassband low_freq high_freq s =
    (if low_freq \<ge> high_freq \<or> \<not> initialized_' s then s
     else s\<lparr>passband_low_hz_' := low_freq, passband_high_hz_' := high_freq,
            parameters_changed_' := True\<rparr>)"

definition setCenterFrequency :: "real \<Rightarrow> DynamicBandpassFilter \<Rightarrow> DynamicBandpassFilter" where
  "setCenterFrequency center_freq s =
    (if \<not> initialized_' s then s
     else s\<lparr>current_center_freq_' := center_freq,
            config_' := (config_' s)\<lparr>center_frequency := center_freq\<rparr>,
            parameters_changed_' := True\<rparr>)"

definition setSSBCarrierOffset :: "real \<Rightarrow> DynamicBandpassFilter \<Rightarrow> DynamicBandpassFilter" where
  "setSSBCarrierOffset offset_hz s =
    (if \<not> initialized_' s then s
     else s\<lparr>ssb_carrier_offset_' := offset_hz,
            config_' := (config_' s)\<lparr>ssb_carrier_offset := offset_hz\<rparr>,
            parameters_changed_' := True,
            current_stats_' := (current_stats_' s)\<lparr>ssb_carrier_offset_hz := offset_hz\<rparr>\<rparr>)"

definition setSSBSharpCutoff :: "bool \<Rightarrow> DynamicBandpassFilter \<Rightarrow> DynamicBandpassFilter" where
  "setSSBSharpCutoff enabled s =
    (if \<not> initialized_' s then s
     else s\<lparr>ssb_sharp_cutoff_' := enabled,
            config_' := (config_' s)\<lparr>ssb_sharp_cutoff := enabled\<rparr>,
            parameters_changed_' := True\<rparr>)"

section \<open>Query surface\<close>

definition isInitialized :: "DynamicBandpassFilter \<Rightarrow> bool" where
  "isInitialized s = initialized_' s"

definition getSSBCarrierOffset :: "DynamicBandpassFilter \<Rightarrow> real" where
  "getSSBCarrierOffset s = ssb_carrier_offset_' s"

definition isSSBMode :: "DynamicBandpassFilter \<Rightarrow> bool" where
  "isSSBMode s = (protocol (config_' s) = USB \<or> protocol (config_' s) = LSB)"

definition getConfiguration :: "DynamicBandpassFilter \<Rightarrow> FilterConfig" where
  "getConfiguration s = config_' s"

definition getStats :: "DynamicBandpassFilter \<Rightarrow> FilterStats" where
  "getStats s =
    (current_stats_' s)
      \<lparr>passband_width_hz := passband_high_hz_' s - passband_low_hz_' s,
       current_center_freq := current_center_freq_' s,
       ssb_carrier_offset_hz := ssb_carrier_offset_' s,
       stopband_attenuation_db := stopband_attenuation (config_' s),
       ssb_mode_active := (protocol (config_' s) = USB \<or> protocol (config_' s) = LSB)\<rparr>"

text \<open>\<^verbatim>\<open>static_cast<int>\<close> of a floating-point number drops the fraction.\<close>

definition float_to_int :: "real \<Rightarrow> int" where
  "float_to_int x = (if x \<ge> 0 then \<lfloor>x\<rfloor> else \<lceil>x\<rceil>)"

text \<open>\<^verbatim>\<open>std::clamp(v, lo, hi)\<close>.\<close>

definition clamp :: "int \<Rightarrow> int \<Rightarrow> int \<Rightarrow> int" where
  "clamp v lo hi = (if v < lo then lo else if hi < v then hi else v)"

definition getResponse :: "DynamicBandpassFilter \<Rightarrow> real \<Rightarrow> real" where
  "getResponse s frequency =
    (if \<not> isValidForProcessing s then 1
     else if filter_kernel_' s = [] then 1
     else
       let sample_rate' = sample_rate (config_' s);
           nyquist = sample_rate' / 2
       in if \<bar>frequency\<bar> > nyquist then 0
          else
            let freq_res = frequency_resolution_' s;
                fft_size = fft_size_' s;
                bin = float_to_int ((frequency + nyquist) / freq_res);
                bin = clamp bin 0 (fft_size - 1)
            in if bin < int (length (filter_kernel_' s))
               then cmod (filter_kernel_' s ! nat bin)
               else 1)"

definition reset :: "DynamicBandpassFilter \<Rightarrow> DynamicBandpassFilter" where
  "reset s =
    (if \<not> initialized_' s then s
     else s\<lparr>energy_history_' := map (\<lambda>_. 0) (energy_history_' s),
            energy_history_idx_' := 0,
            current_center_freq_' := center_frequency (config_' s),
            ssb_carrier_offset_' := ssb_carrier_offset (config_' s),
            total_samples_processed_' := 0,
            current_stats_' := (current_stats_' s)
              \<lparr>samples_processed := 0, processing_time_ms := 0\<rparr>\<rparr>)"

section \<open>Processing pipeline\<close>

definition updateFilterParameters :: "DynamicBandpassFilter \<Rightarrow> DynamicBandpassFilter" where
  "updateFilterParameters s =
    (if \<not> isValidForProcessing s then s
     else if \<not> parameters_changed_' s then s
     else
       let defaults = defaults_of (protocol (config_' s));
           half_bandwidth = passband_width defaults / 2;
           current_low = passband_low_hz_' s;
           current_high = passband_high_hz_' s;
           s1 = (if protocol (config_' s) = USB \<or> protocol (config_' s) = LSB then
                   s\<lparr>ssb_carrier_offset_' := ssb_carrier_offset (config_' s),
                     ssb_sharp_cutoff_' := ssb_sharp_cutoff (config_' s)\<rparr>
                 else if \<bar>current_low + current_high\<bar> < 1 then
                   s\<lparr>passband_low_hz_' := - half_bandwidth,
                     passband_high_hz_' := half_bandwidth\<rparr>
                 else s);
           s2 = designFilter s1
       in s2\<lparr>parameters_changed_' := False\<rparr>)"

text \<open>
  One pass of the body of the block loop on the block that starts at \<open>pos\<close>: the
  contents of the two transform buffers after the inverse transform, and the samples
  appended to the output. The kernel is read only when its length is the transform
  size.
\<close>

definition process_block ::
  "environment \<Rightarrow> int \<Rightarrow> complex list \<Rightarrow> complex list \<Rightarrow> nat \<Rightarrow> nat
    \<Rightarrow> complex list \<times> complex list \<times> complex list" where
  "process_block E current_fft_size filter_kernel input pos block_size =
    (let n = nat current_fft_size;
         fft_input = map (\<lambda>i. input ! (pos + i)) [0..<block_size]
                     @ replicate (n - block_size) 0;
         fft_output = map (execute_forward E current_fft_size fft_input) [0..<n];
         fft_output =
           (if length filter_kernel = n
            then fold (\<lambda>i out. out[i := out ! i * filter_kernel ! i]) [0..<n] fft_output
            else fft_output);
         fft_input = map (execute_backward E current_fft_size fft_output) [0..<n];
         norm' = 1 / of_int current_fft_size
     in (fft_input, fft_output,
         map (\<lambda>i. Complex (Re (fft_input ! i) * norm') (Im (fft_input ! i) * norm'))
             [0..<block_size]))"

text \<open>
  The block loop of \<^verbatim>\<open>process\<close>. \<^verbatim>\<open>current_fft_size\<close> is the value of
  \<^verbatim>\<open>fft_size_\<close> that the call read before the loop; nothing in the call writes
  \<^verbatim>\<open>fft_size_\<close>, so the loop reads it from the state. Missing transform resources
  leave the loop (\<^verbatim>\<open>break\<close>) with the output produced so far.
\<close>

function process_loop ::
  "environment \<Rightarrow> complex list \<Rightarrow> DynamicBandpassFilter \<Rightarrow> nat \<Rightarrow> complex list
    \<Rightarrow> DynamicBandpassFilter \<times> complex list" where
  "process_loop E input s pos output =
    (if pos < length input \<and> isValidForProcessing s then
       let current_fft_size = fft_size_' s;
           block_size = min (nat current_fft_size) (length input - pos)
       in if fft_input_' s = None \<or> fft_output_' s = None
             \<or> forward_plan_' s = None \<or> inverse_plan_' s = None
          then (s, output)
          else
            let (fft_input, fft_output, samples) =
                  process_block E current_fft_size (filter_kernel_' s) input pos block_size
            in process_loop E input
                 (s\<lparr>fft_input_' := Some fft_input, fft_output_' := Some fft_output\<rparr>)
                 (pos + block_size) (output @ samples)
     else (s, output))"
  by pat_completeness auto
termination
  by (relation "measure (\<lambda>(E, input, s, pos, output). length input - pos)")
     (auto simp: isValidForProcessing_def)

declare process_loop.simps [simp del]

text \<open>
  \<^verbatim>\<open>process\<close>. The guard object clears \<^verbatim>\<open>processing_active_\<close> on every way out after
  it was set. The size counters are \<^verbatim>\<open>size_t\<close>, 64 bits wide.
\<close>

definition process ::
  "environment \<Rightarrow> DynamicBandpassFilter \<Rightarrow> complex list
    \<Rightarrow> DynamicBandpassFilter \<times> complex list" where
  "process E s input =
    (if \<not> isValidForProcessing s \<or> input = [] then (s, input)
     else
       let s1 = s\<lparr>processing_active_' := True\<rparr>;
           current_fft_size = fft_size_' s1
       in if length input > nat current_fft_size * 10
          then (s1\<lparr>processing_active_' := False\<rparr>, input)
          else
            let s2 = (if parameters_changed_' s1 then updateFilterParameters s1 else s1)
            in if \<not> reserve_ok E then (s2\<lparr>processing_active_' := False\<rparr>, input)
               else
                 let (s3, output) = process_loop E input s2 0 [];
                     s4 = s3\<lparr>current_stats_' := (current_stats_' s3)
                               \<lparr>processing_time_ms := of_int (elapsed_us E) / 1000,
                                samples_processed := length input\<rparr>,
                             total_samples_processed_' :=
                               (total_samples_processed_' s3 + length input) mod 2 ^ 64\<rparr>
                 in (s4\<lparr>processing_active_' := False\<rparr>, output))"

definition processInPlace ::
  "environment \<Rightarrow> DynamicBandpassFilter \<Rightarrow> complex list
    \<Rightarrow> DynamicBandpassFilter \<times> complex list" where
  "processInPlace E s samples =
    (if \<not> isValidForProcessing s \<or> samples = [] then (s, samples)
     else process E s samples)"

section \<open>Derived notions\<close>

text \<open>All four transform resources are there (none of the pointers is null).\<close>

definition resources_available :: "DynamicBandpassFilter \<Rightarrow> bool" where
  "resources_available s =
    (fft_input_' s \<noteq> None \<and> fft_output_' s \<noteq> None
     \<and> forward_plan_' s \<noteq> None \<and> inverse_plan_' s \<noteq> None)"

text \<open>The kernel that a design pass (\<^verbatim>\<open>designFilter\<close>) leaves.\<close>

definition designed_kernel :: "DynamicBandpassFilter \<Rightarrow> complex list" where
  "designed_kernel s = filter_kernel_' (designFilter s)"

text \<open>The two cutoffs that \<^verbatim>\<open>safelyUpdateKernel\<close> computes before its loop.\<close>

definition low_cutoff_of :: "DynamicBandpassFilter \<Rightarrow> real" where
  "low_cutoff_of s =
    (if protocol (config_' s) = USB \<or> protocol (config_' s) = LSB
     then passband_low_hz_' s + current_center_freq_' s + ssb_carrier_offset_' s
     else passband_low_hz_' s + current_center_freq_' s)"

definition high_cutoff_of :: "DynamicBandpassFilter \<Rightarrow> real" where
  "high_cutoff_of s =
    (if protocol (config_' s) = USB \<or> protocol (config_' s) = LSB
     then passband_high_hz_' s + current_center_freq_' s + ssb_carrier_offset_' s
     else passband_high_hz_' s + current_center_freq_' s)"

section \<open>The kernel as the specification words it\<close>

text \<open>
  Bin \<open>i \<le> N/2\<close> stands for the frequency \<open>i\<cdot>\<Delta>f\<close> and bin \<open>i > N/2\<close> for
  \<open>(i - N)\<cdot>\<Delta>f\<close>. The response of a protocol other than USB and LSB is one inside
  \<open>[low, high]\<close>, a linear ramp over a transition band of width \<open>2\<cdot>\<Delta>f\<close> at each
  edge, and zero outside.
\<close>

definition spec_bin_frequency :: "int \<Rightarrow> real \<Rightarrow> int \<Rightarrow> real" where
  "spec_bin_frequency N df i =
    (if real_of_int i \<le> real_of_int N / 2 then real_of_int i * df
     else (real_of_int i - real_of_int N) * df)"

definition spec_bandpass_response :: "real \<Rightarrow> real \<Rightarrow> real \<Rightarrow> real \<Rightarrow> real" where
  "spec_bandpass_response low high df f =
    (if low \<le> f \<and> f \<le> high then 1
     else if low - 2 * df \<le> f \<and> f < low then (f - (low - 2 * df)) / (2 * df)
     else if high < f \<and> f \<le> high + 2 * df then ((high + 2 * df) - f) / (2 * df)
     else 0)"

section \<open>A block that is not filtered\<close>






section \<open>Reference environment and reference states\<close>

text \<open>
  FFTW computes the unnormalised discrete Fourier transform, with exponent sign \<open>-1\<close>
  forward and \<open>+1\<close> backward. \<open>fftw\<close> is the environment in which both transforms
  are exactly that, the clock measured 250 microseconds and the allocation succeeded.
\<close>

definition dft :: "real \<Rightarrow> int \<Rightarrow> complex list \<Rightarrow> nat \<Rightarrow> complex" where
  "dft direction n xs k =
    (\<Sum>j<nat n. xs ! j * cis (direction * (2 * pi * real j * real k / real_of_int n)))"

definition fftw :: environment where
  "fftw = \<lparr>execute_forward = dft (- 1), execute_backward = dft 1,
           elapsed_us = 250, reserve_ok = True\<rparr>"

text \<open>A freshly constructed filter after \<^verbatim>\<open>initialize(2048000, 1024)\<close>, and the same
  after \<^verbatim>\<open>setEnabled(true)\<close>.\<close>

definition wfm_initialized :: DynamicBandpassFilter where
  "wfm_initialized = fst (initialize True True 2048000 1024 constructor)"

definition wfm_enabled :: DynamicBandpassFilter where
  "wfm_enabled = setEnabled True wfm_initialized"

text \<open>The enabled filter after \<^verbatim>\<open>setProtocol(USB)\<close>.\<close>

definition usb_enabled :: DynamicBandpassFilter where
  "usb_enabled = setProtocol USB wfm_enabled"

text \<open>The enabled filter after \<^verbatim>\<open>setCenterFrequency(0)\<close>, which raises the dirty flag,
  and a call of \<^verbatim>\<open>process\<close> on one sample, which redesigns the kernel.\<close>

definition wfm_redesigned :: DynamicBandpassFilter where
  "wfm_redesigned = fst (process fftw (setCenterFrequency 0 wfm_enabled) [1])"

text \<open>
  The enabled filter at the moment when \<^verbatim>\<open>cleanup\<close>, run by \<^verbatim>\<open>initialize\<close> or by the
  destructor on another thread, has destroyed the plans and freed the buffers and has
  not yet cleared \<^verbatim>\<open>initialized_\<close>.
\<close>

definition wfm_torn :: DynamicBandpassFilter where
  "wfm_torn = wfm_enabled\<lparr>forward_plan_' := None, inverse_plan_' := None,
                 fft_input_' := None, fft_output_' := None\<rparr>"


section \<open>Auxiliary facts\<close>

subsection \<open>Index loops over a vector\<close>

lemma fold_list_update_prefix:
  "m \<le> length k \<Longrightarrow>
   fold (\<lambda>i k. k[i := f i (k ! i)]) [0..<m] k = map (\<lambda>i. f i (k ! i)) [0..<m] @ drop m k"
proof (induction m)
  case 0
  show ?case by simp
next
  case (Suc m)
  then have m: "m < length k" by simp
  have "fold (\<lambda>i k. k[i := f i (k ! i)]) [0..<Suc m] k =
        (map (\<lambda>i. f i (k ! i)) [0..<m] @ drop m k)
          [m := f m ((map (\<lambda>i. f i (k ! i)) [0..<m] @ drop m k) ! m)]"
    using Suc by simp
  also have "\<dots> = map (\<lambda>i. f i (k ! i)) [0..<m] @ (drop m k)[0 := f m (k ! m)]"
    using m by (simp add: list_update_append nth_append)
  also have "(drop m k)[0 := f m (k ! m)] = f m (k ! m) # drop (Suc m) k"
    using m by (simp add: Cons_nth_drop_Suc [symmetric])
  finally show ?case by simp
qed

lemma fold_list_update_all:
  "length k = n \<Longrightarrow>
   fold (\<lambda>i k. k[i := f i (k ! i)]) [0..<n] k = map (\<lambda>i. f i (k ! i)) [0..<n]"
  using fold_list_update_prefix [of n k f] by simp

subsection \<open>The protocol table and the reference states\<close>

lemma defaults_of_simps:
  "defaults_of WFM = \<lparr>passband_width = 200000, transition_width = 0.1,
     stopband_atten = 60, carrier_offset = 0, sharp_cutoff = False\<rparr>"
  "defaults_of NBFM = \<lparr>passband_width = 12500, transition_width = 0.15,
     stopband_atten = 50, carrier_offset = 0, sharp_cutoff = False\<rparr>"
  "defaults_of AM = \<lparr>passband_width = 8000, transition_width = 0.2,
     stopband_atten = 40, carrier_offset = 0, sharp_cutoff = False\<rparr>"
  "defaults_of USB = \<lparr>passband_width = 3000, transition_width = 0.05,
     stopband_atten = 70, carrier_offset = 1500, sharp_cutoff = True\<rparr>"
  "defaults_of LSB = \<lparr>passband_width = 3000, transition_width = 0.05,
     stopband_atten = 70, carrier_offset = - 1500, sharp_cutoff = True\<rparr>"
  by (simp_all add: defaults_of_def PROTOCOL_DEFAULTS_def)

text \<open>
  \<^verbatim>\<open>initialize\<close> calls \<^verbatim>\<open>designFilter\<close> before it sets \<^verbatim>\<open>initialized_\<close>, so the
  design returns at its first line and the kernel stays the all-pass kernel.
\<close>

lemma wfm_initialized_eq:
  "wfm_initialized =
    \<lparr>initialized_' = True, enabled_' = False, parameters_changed_' = False,
     processing_active_' = False,
     config_' = \<lparr>protocol = WFM, shape = BLACKMAN, stopband_attenuation = 75,
                center_frequency = 0, bandwidth = 200000, sample_rate = 2048000,
                ssb_carrier_offset = 0, ssb_sharp_cutoff = False\<rparr>,
     fft_size_' = 1024, overlap_size_' = 0, frequency_resolution_' = 2000,
     forward_plan_' = Some (Plan 1024 True), inverse_plan_' = Some (Plan 1024 False),
     fft_input_' = Some (replicate 1024 0), fft_output_' = Some (replicate 1024 0),
     filter_kernel_' = replicate 1024 1, passband_low_hz_' = - 100000,
     passband_high_hz_' = 100000,
     current_center_freq_' = 0, ssb_carrier_offset_' = 0, ssb_sharp_cutoff_' = False,
     energy_history_' = [], energy_history_idx_' = 0, adaptive_alpha_' = 0.05,
     current_stats_' = zero_stats,
     total_samples_processed_' = 0\<rparr>"
  by (simp add: wfm_initialized_def initialize_def Let_def cleanup_def constructor_def
      designFilter_def isValidForProcessing_def defaults_of_simps resize_vec_def
      zero_stats_def)

lemma wfm_enabled_eq:
  "wfm_enabled =
    wfm_initialized\<lparr>enabled_' := True, current_stats_' := zero_stats\<lparr>is_enabled := True\<rparr>\<rparr>"
  by (simp add: wfm_enabled_def setEnabled_def wfm_initialized_eq)

lemma wfm_enabled_valid: "isValidForProcessing wfm_enabled"
  by (simp add: wfm_enabled_eq wfm_initialized_eq isValidForProcessing_def)

subsection \<open>The block loop\<close>

lemma process_loop_stop:
  "\<not> (pos < length input \<and> isValidForProcessing s) \<Longrightarrow>
   process_loop E input s pos out = (s, out)"
  by (subst process_loop.simps) auto

lemma process_loop_break:
  "\<not> resources_available s \<Longrightarrow> process_loop E input s pos out = (s, out)"
  by (subst process_loop.simps) (auto simp: resources_available_def Let_def)

lemma process_loop_step:
  assumes "pos < length input" "isValidForProcessing s" "resources_available s"
    and "process_block E (fft_size_' s) (filter_kernel_' s) input pos
           (min (nat (fft_size_' s)) (length input - pos)) = (a, b, c)"
  shows "process_loop E input s pos out =
         process_loop E input (s\<lparr>fft_input_' := Some a, fft_output_' := Some b\<rparr>)
           (pos + min (nat (fft_size_' s)) (length input - pos)) (out @ c)"
  using assms by (subst process_loop.simps) (auto simp: resources_available_def Let_def)

text \<open>The loop writes the two transform buffers and nothing else.\<close>

lemma process_loop_frame:
  "process_loop E input s pos out = (s', out') \<Longrightarrow>
   s' = s\<lparr>fft_input_' := fft_input_' s', fft_output_' := fft_output_' s'\<rparr>"
proof (induction E input s pos out rule: process_loop.induct)
  case (1 E input s pos out)
  show ?case
  proof (cases "pos < length input \<and> isValidForProcessing s \<and> resources_available s")
    case True
    obtain a b c where pb:
      "process_block E (fft_size_' s) (filter_kernel_' s) input pos
         (min (nat (fft_size_' s)) (length input - pos)) = (a, b, c)"
      by (metis prod_cases3)
    from True pb "1.prems" have rec:
      "process_loop E input (s\<lparr>fft_input_' := Some a, fft_output_' := Some b\<rparr>)
         (pos + min (nat (fft_size_' s)) (length input - pos)) (out @ c) = (s', out')"
      by (simp add: process_loop_step)
    from True have nm: "\<not> (fft_input_' s = None \<or> fft_output_' s = None
             \<or> forward_plan_' s = None \<or> inverse_plan_' s = None)"
      by (simp add: resources_available_def)
    from True have c: "pos < length input \<and> isValidForProcessing s" by simp
    from "1.IH" [OF c refl refl nm refl pb [symmetric] refl rec]
    have "s' = s\<lparr>fft_input_' := Some a, fft_output_' := Some b\<rparr>
                \<lparr>fft_input_' := fft_input_' s', fft_output_' := fft_output_' s'\<rparr>"
      by simp
    then show ?thesis by simp
  next
    case False
    with "1.prems" have "s' = s"
      using process_loop_stop process_loop_break by (metis fst_conv)
    then show ?thesis by simp
  qed
qed

subsection \<open>What a design pass writes\<close>

lemma safelyUpdateKernel_frame:
  "\<exists>K. safelyUpdateKernel s = s\<lparr>filter_kernel_' := K\<rparr>"
proof -
  have "safelyUpdateKernel s = s\<lparr>filter_kernel_' := filter_kernel_' (safelyUpdateKernel s)\<rparr>"
    by (simp add: safelyUpdateKernel_def Let_def)
  then show ?thesis ..
qed

lemma applySSBShaping_frame:
  "\<exists>K. applySSBShaping n r s = s\<lparr>filter_kernel_' := K\<rparr>"
proof -
  have "applySSBShaping n r s = s\<lparr>filter_kernel_' := filter_kernel_' (applySSBShaping n r s)\<rparr>"
    by (simp add: applySSBShaping_def Let_def)
  then show ?thesis ..
qed

lemma designSSBFilter_frame:
  "\<exists>K. designSSBFilter s = s\<lparr>filter_kernel_' := K\<rparr>"
proof (cases "isValidForProcessing s")
  case True
  obtain K1 where 1: "safelyUpdateKernel s = s\<lparr>filter_kernel_' := K1\<rparr>"
    using safelyUpdateKernel_frame by blast
  obtain K2 where 2:
    "applySSBShaping (fft_size_' s) (frequency_resolution_' s) (s\<lparr>filter_kernel_' := K1\<rparr>)
     = s\<lparr>filter_kernel_' := K1\<rparr>\<lparr>filter_kernel_' := K2\<rparr>"
    using applySSBShaping_frame by blast
  have "designSSBFilter s = s\<lparr>filter_kernel_' := K2\<rparr>"
    using True by (simp add: designSSBFilter_def Let_def 1 2)
  then show ?thesis ..
next
  case False
  then have "designSSBFilter s = s\<lparr>filter_kernel_' := filter_kernel_' s\<rparr>"
    by (simp add: designSSBFilter_def)
  then show ?thesis ..
qed

lemma designFilter_eq:
  assumes "isValidForProcessing s"
  shows "designFilter s =
    s\<lparr>filter_kernel_' := designed_kernel s,
      current_stats_' := (current_stats_' s)
        \<lparr>passband_width_hz := passband_high_hz_' s - passband_low_hz_' s,
         current_center_freq := current_center_freq_' s,
         ssb_carrier_offset_hz := ssb_carrier_offset_' s,
         stopband_attenuation_db := stopband_attenuation (config_' s),
         ssb_mode_active := (protocol (config_' s) = USB \<or> protocol (config_' s) = LSB)\<rparr>\<rparr>"
proof -
  obtain K where 1: "(if protocol (config_' s) = USB \<or> protocol (config_' s) = LSB
                 then designSSBFilter s else safelyUpdateKernel s) = s\<lparr>filter_kernel_' := K\<rparr>"
    using designSSBFilter_frame [of s] safelyUpdateKernel_frame [of s]
    by (cases "protocol (config_' s) = USB \<or> protocol (config_' s) = LSB") auto
  have 2: "designFilter s = s\<lparr>filter_kernel_' := K,
      current_stats_' := (current_stats_' s)
        \<lparr>passband_width_hz := passband_high_hz_' s - passband_low_hz_' s,
         current_center_freq := current_center_freq_' s,
         ssb_carrier_offset_hz := ssb_carrier_offset_' s,
         stopband_attenuation_db := stopband_attenuation (config_' s),
         ssb_mode_active := (protocol (config_' s) = USB \<or> protocol (config_' s) = LSB)\<rparr>\<rparr>"
    using assms unfolding designFilter_def Let_def 1 by simp
  have "designed_kernel s = K"
    unfolding designed_kernel_def 2 by simp
  with 2 show ?thesis by simp
qed

lemma designFilter_counters:
  "samples_processed (current_stats_' (designFilter s)) = samples_processed (current_stats_' s)
   \<and> total_samples_processed_' (designFilter s) = total_samples_processed_' s"
  using designFilter_eq [of s]
  by (cases "isValidForProcessing s") (simp_all add: designFilter_def)

subsection \<open>What a parameter update and a call of \<^verbatim>\<open>process\<close> write\<close>

lemma updateFilterParameters_eq:
  assumes "isValidForProcessing s" "parameters_changed_' s"
  shows "updateFilterParameters s =
    (let w = passband_width (defaults_of (protocol (config_' s)));
         s1 = (if protocol (config_' s) = USB \<or> protocol (config_' s) = LSB then
                 s\<lparr>ssb_carrier_offset_' := ssb_carrier_offset (config_' s),
                   ssb_sharp_cutoff_' := ssb_sharp_cutoff (config_' s)\<rparr>
               else if \<bar>passband_low_hz_' s + passband_high_hz_' s\<bar> < 1 then
                 s\<lparr>passband_low_hz_' := - (w / 2), passband_high_hz_' := w / 2\<rparr>
               else s)
     in (designFilter s1)\<lparr>parameters_changed_' := False\<rparr>)"
  using assms by (simp add: updateFilterParameters_def Let_def)

lemma updateFilterParameters_passband:
  assumes "isValidForProcessing s" "parameters_changed_' s"
  shows "passband_low_hz_' (updateFilterParameters s) =
          (if protocol (config_' s) \<noteq> USB \<and> protocol (config_' s) \<noteq> LSB
              \<and> \<bar>passband_low_hz_' s + passband_high_hz_' s\<bar> < 1
           then - (passband_width (defaults_of (protocol (config_' s))) / 2)
           else passband_low_hz_' s)"
    and "passband_high_hz_' (updateFilterParameters s) =
          (if protocol (config_' s) \<noteq> USB \<and> protocol (config_' s) \<noteq> LSB
              \<and> \<bar>passband_low_hz_' s + passband_high_hz_' s\<bar> < 1
           then passband_width (defaults_of (protocol (config_' s))) / 2
           else passband_high_hz_' s)"
proof -
  let ?w = "passband_width (defaults_of (protocol (config_' s)))"
  let ?s1 = "(if protocol (config_' s) = USB \<or> protocol (config_' s) = LSB then
                 s\<lparr>ssb_carrier_offset_' := ssb_carrier_offset (config_' s),
                   ssb_sharp_cutoff_' := ssb_sharp_cutoff (config_' s)\<rparr>
               else if \<bar>passband_low_hz_' s + passband_high_hz_' s\<bar> < 1 then
                 s\<lparr>passband_low_hz_' := - (?w / 2), passband_high_hz_' := ?w / 2\<rparr>
               else s)"
  have v: "isValidForProcessing ?s1"
    using assms(1) by (simp add: isValidForProcessing_def)
  have u: "updateFilterParameters s = (designFilter ?s1)\<lparr>parameters_changed_' := False\<rparr>"
    using updateFilterParameters_eq [OF assms] by (simp add: Let_def)
  show "passband_low_hz_' (updateFilterParameters s) =
          (if protocol (config_' s) \<noteq> USB \<and> protocol (config_' s) \<noteq> LSB
              \<and> \<bar>passband_low_hz_' s + passband_high_hz_' s\<bar> < 1
           then - (?w / 2) else passband_low_hz_' s)"
    unfolding u by (subst designFilter_eq [OF v]) simp
  show "passband_high_hz_' (updateFilterParameters s) =
          (if protocol (config_' s) \<noteq> USB \<and> protocol (config_' s) \<noteq> LSB
              \<and> \<bar>passband_low_hz_' s + passband_high_hz_' s\<bar> < 1
           then ?w / 2 else passband_high_hz_' s)"
    unfolding u by (subst designFilter_eq [OF v]) simp
qed

lemma updateFilterParameters_counters:
  "samples_processed (current_stats_' (updateFilterParameters s))
     = samples_processed (current_stats_' s)
   \<and> total_samples_processed_' (updateFilterParameters s) = total_samples_processed_' s
   \<and> isValidForProcessing (updateFilterParameters s) = isValidForProcessing s
   \<and> fft_size_' (updateFilterParameters s) = fft_size_' s"
proof (cases "isValidForProcessing s \<and> parameters_changed_' s")
  case True
  let ?w = "passband_width (defaults_of (protocol (config_' s)))"
  let ?s1 = "(if protocol (config_' s) = USB \<or> protocol (config_' s) = LSB then
                 s\<lparr>ssb_carrier_offset_' := ssb_carrier_offset (config_' s),
                   ssb_sharp_cutoff_' := ssb_sharp_cutoff (config_' s)\<rparr>
               else if \<bar>passband_low_hz_' s + passband_high_hz_' s\<bar> < 1 then
                 s\<lparr>passband_low_hz_' := - (?w / 2), passband_high_hz_' := ?w / 2\<rparr>
               else s)"
  have v: "isValidForProcessing ?s1"
    using True by (simp add: isValidForProcessing_def)
  have u: "updateFilterParameters s = (designFilter ?s1)\<lparr>parameters_changed_' := False\<rparr>"
    using updateFilterParameters_eq [of s] True by (simp add: Let_def)
  show ?thesis
    unfolding u
    by (subst (1 2 3 4) designFilter_eq [OF v]) (simp add: isValidForProcessing_def)
next
  case False
  then show ?thesis by (auto simp: updateFilterParameters_def)
qed

text \<open>The state after a call that ran the block loop.\<close>

lemma process_state:
  assumes "isValidForProcessing s" "input \<noteq> []" "length input \<le> 10 * nat (fft_size_' s)"
    and "reserve_ok E"
    and "s2 = (if parameters_changed_' s
               then updateFilterParameters (s\<lparr>processing_active_' := True\<rparr>)
               else s\<lparr>processing_active_' := True\<rparr>)"
  shows "\<exists>fi fo. fst (process E s input) =
           s2\<lparr>fft_input_' := fi, fft_output_' := fo,
              current_stats_' := (current_stats_' s2)
                \<lparr>processing_time_ms := of_int (elapsed_us E) / 1000,
                 samples_processed := length input\<rparr>,
              total_samples_processed_' :=
                (total_samples_processed_' s2 + length input) mod 2 ^ 64,
              processing_active_' := False\<rparr>"
proof -
  obtain s3 out where l: "process_loop E input s2 0 [] = (s3, out)"
    by force
  from process_loop_frame [OF l] obtain fi fo
    where s3: "s3 = s2\<lparr>fft_input_' := fi, fft_output_' := fo\<rparr>"
    by blast
  have "fst (process E s input) =
         s3\<lparr>current_stats_' := (current_stats_' s3)
                \<lparr>processing_time_ms := of_int (elapsed_us E) / 1000,
                 samples_processed := length input\<rparr>,
              total_samples_processed_' :=
                (total_samples_processed_' s3 + length input) mod 2 ^ 64,
              processing_active_' := False\<rparr>"
    using assms(1-4) l unfolding process_def Let_def assms(5) [symmetric]
    by (simp add: assms(5) [symmetric] mult.commute)
  then show ?thesis
    unfolding s3 by (intro exI [of _ fi] exI [of _ fo]) simp
qed

text \<open>The call when \<^verbatim>\<open>output.reserve\<close> throws: the handler returns the input.\<close>

lemma process_reserve_failed:
  assumes "isValidForProcessing s" "input \<noteq> []" "length input \<le> 10 * nat (fft_size_' s)"
    and "\<not> reserve_ok E"
  shows "process E s input =
           ((if parameters_changed_' s
               then updateFilterParameters (s\<lparr>processing_active_' := True\<rparr>)
               else s\<lparr>processing_active_' := True\<rparr>)\<lparr>processing_active_' := False\<rparr>, input)"
  using assms by (simp add: process_def Let_def mult.commute)

lemma process_passband:
  assumes "isValidForProcessing s" "input \<noteq> []" "length input \<le> 10 * nat (fft_size_' s)"
  shows "passband_low_hz_' (fst (process E s input)) =
          passband_low_hz_' (if parameters_changed_' s then updateFilterParameters s else s)"
    and "passband_high_hz_' (fst (process E s input)) =
          passband_high_hz_' (if parameters_changed_' s then updateFilterParameters s else s)"
proof -
  let ?a = "s\<lparr>processing_active_' := True\<rparr>"
  let ?s2 = "(if parameters_changed_' s then updateFilterParameters ?a else ?a)"
  have va: "isValidForProcessing ?a"
    using assms(1) by (simp add: isValidForProcessing_def)
  have p: "passband_low_hz_' (fst (process E s input)) = passband_low_hz_' ?s2
         \<and> passband_high_hz_' (fst (process E s input)) = passband_high_hz_' ?s2"
  proof (cases "reserve_ok E")
    case True
    from process_state [OF assms True refl] obtain fi fo where
      "fst (process E s input) =
           ?s2\<lparr>fft_input_' := fi, fft_output_' := fo,
              current_stats_' := (current_stats_' ?s2)
                \<lparr>processing_time_ms := of_int (elapsed_us E) / 1000,
                 samples_processed := length input\<rparr>,
              total_samples_processed_' :=
                (total_samples_processed_' ?s2 + length input) mod 2 ^ 64,
              processing_active_' := False\<rparr>"
      by blast
    then show ?thesis by simp
  next
    case False
    show ?thesis
      unfolding process_reserve_failed [OF assms False] by simp
  qed
  have q: "parameters_changed_' s \<Longrightarrow>
        passband_low_hz_' (updateFilterParameters ?a)
          = passband_low_hz_' (updateFilterParameters s)
      \<and> passband_high_hz_' (updateFilterParameters ?a)
          = passband_high_hz_' (updateFilterParameters s)"
    using updateFilterParameters_passband [OF va]
      updateFilterParameters_passband [OF assms(1)]
    by simp
  show "passband_low_hz_' (fst (process E s input)) =
          passband_low_hz_' (if parameters_changed_' s then updateFilterParameters s else s)"
    using p q by simp
  show "passband_high_hz_' (fst (process E s input)) =
          passband_high_hz_' (if parameters_changed_' s then updateFilterParameters s else s)"
    using p q by simp
qed

lemma process_counters:
  assumes "isValidForProcessing s" "input \<noteq> []" "length input \<le> 10 * nat (fft_size_' s)"
    and "reserve_ok E"
  shows "samples_processed (getStats (fst (process E s input))) = length input"
    and "total_samples_processed_' (fst (process E s input)) =
           (total_samples_processed_' s + length input) mod 2 ^ 64"
    and "isValidForProcessing (fst (process E s input))"
    and "fft_size_' (fst (process E s input)) = fft_size_' s"
proof -
  let ?a = "s\<lparr>processing_active_' := True\<rparr>"
  let ?s2 = "(if parameters_changed_' s then updateFilterParameters ?a else ?a)"
  have va: "isValidForProcessing ?a"
    using assms(1) by (simp add: isValidForProcessing_def)
  have c: "total_samples_processed_' ?s2 = total_samples_processed_' s"
     "isValidForProcessing ?s2" "fft_size_' ?s2 = fft_size_' s"
    using updateFilterParameters_counters [of ?a] va by simp_all
  from process_state [OF assms refl] obtain fi fo where e:
      "fst (process E s input) =
           ?s2\<lparr>fft_input_' := fi, fft_output_' := fo,
              current_stats_' := (current_stats_' ?s2)
                \<lparr>processing_time_ms := of_int (elapsed_us E) / 1000,
                 samples_processed := length input\<rparr>,
              total_samples_processed_' :=
                (total_samples_processed_' ?s2 + length input) mod 2 ^ 64,
              processing_active_' := False\<rparr>"
    by blast
  show "samples_processed (getStats (fst (process E s input))) = length input"
    unfolding e by (simp add: getStats_def)
  show "total_samples_processed_' (fst (process E s input)) =
           (total_samples_processed_' s + length input) mod 2 ^ 64"
    unfolding e using c(1) by simp
  show "isValidForProcessing (fst (process E s input))"
    unfolding e using c(2) by (simp add: isValidForProcessing_def)
  show "fft_size_' (fst (process E s input)) = fft_size_' s"
    unfolding e using c(3) by simp
qed

subsection \<open>The designed kernel, bin by bin\<close>

lemma length_resize_vec [simp]: "length (resize_vec n v xs) = n"
  by (simp add: resize_vec_def)

lemma safelyUpdateKernel_kernel:
  assumes "isValidForProcessing s"
  shows "filter_kernel_' (safelyUpdateKernel s) =
    map (\<lambda>i. kernel_bin (config_' s) (ssb_sharp_cutoff_' s) (current_center_freq_' s)
                (low_cutoff_of s) (high_cutoff_of s) (frequency_resolution_' s)
                (fft_size_' s) (int i))
        [0..<nat (fft_size_' s)]"
proof -
  let ?g = "\<lambda>i. kernel_bin (config_' s) (ssb_sharp_cutoff_' s) (current_center_freq_' s)
                (low_cutoff_of s) (high_cutoff_of s) (frequency_resolution_' s)
                (fft_size_' s) (int i)"
  let ?k = "(if length (filter_kernel_' s) \<noteq> nat (fft_size_' s)
                     then resize_vec (nat (fft_size_' s)) 1 (filter_kernel_' s)
                     else filter_kernel_' s)"
  have l: "length ?k = nat (fft_size_' s)" by simp
  have "filter_kernel_' (safelyUpdateKernel s) =
          fold (\<lambda>i k. k[i := ?g i]) [0..<nat (fft_size_' s)] ?k"
    using assms
    by (simp add: safelyUpdateKernel_def Let_def low_cutoff_of_def high_cutoff_of_def)
  also have "\<dots> = map ?g [0..<nat (fft_size_' s)]"
    using fold_list_update_all [OF l, where f = "\<lambda>i _. ?g i"] by simp
  finally show ?thesis .
qed

lemma applySSBShaping_kernel:
  assumes "length (filter_kernel_' s) = nat n"
    and "protocol (config_' s) = USB \<or> protocol (config_' s) = LSB"
  shows "filter_kernel_' (applySSBShaping n r s) =
    map (\<lambda>i. filter_kernel_' s ! i
               * of_real (suppression_factor (protocol (config_' s)) (current_center_freq_' s)
                            r n (int i)))
        [0..<nat n]"
proof -
  let ?f = "\<lambda>i x. x * complex_of_real (suppression_factor (protocol (config_' s))
                        (current_center_freq_' s) r n (int i))"
  have "filter_kernel_' (applySSBShaping n r s) =
          fold (\<lambda>i k. k[i := ?f i (k ! i)]) [0..<nat n] (filter_kernel_' s)"
    using assms by (auto simp: applySSBShaping_def Let_def)
  also have "\<dots> = map (\<lambda>i. ?f i (filter_kernel_' s ! i)) [0..<nat n]"
    using fold_list_update_all [OF assms(1), where f = ?f] by simp
  finally show ?thesis .
qed

lemma designed_kernel_length:
  assumes "isValidForProcessing s"
  shows "length (designed_kernel s) = nat (fft_size_' s)"
    and "i < nat (fft_size_' s) \<Longrightarrow> designed_kernel s ! i =
      kernel_bin (config_' s) (ssb_sharp_cutoff_' s) (current_center_freq_' s)
          (low_cutoff_of s) (high_cutoff_of s) (frequency_resolution_' s)
          (fft_size_' s) (int i)
      * (if protocol (config_' s) = USB \<or> protocol (config_' s) = LSB
         then of_real (suppression_factor (protocol (config_' s)) (current_center_freq_' s)
                 (frequency_resolution_' s) (fft_size_' s) (int i))
         else 1)"
proof -
  obtain K where 1: "safelyUpdateKernel s = s\<lparr>filter_kernel_' := K\<rparr>"
    using safelyUpdateKernel_frame by blast
  have K: "K = map (\<lambda>i. kernel_bin (config_' s) (ssb_sharp_cutoff_' s) (current_center_freq_' s)
                (low_cutoff_of s) (high_cutoff_of s) (frequency_resolution_' s)
                (fft_size_' s) (int i))
        [0..<nat (fft_size_' s)]"
    using safelyUpdateKernel_kernel [OF assms] unfolding 1 by simp
  have lK: "length K = nat (fft_size_' s)" unfolding K by simp
  have d: "designed_kernel s =
    (if protocol (config_' s) = USB \<or> protocol (config_' s) = LSB
     then filter_kernel_' (applySSBShaping (fft_size_' s) (frequency_resolution_' s)
            (s\<lparr>filter_kernel_' := K\<rparr>))
     else K)"
    using assms by (simp add: designed_kernel_def designFilter_def designSSBFilter_def Let_def 1)
  have a: "protocol (config_' s) = USB \<or> protocol (config_' s) = LSB \<Longrightarrow>
      filter_kernel_' (applySSBShaping (fft_size_' s) (frequency_resolution_' s)
            (s\<lparr>filter_kernel_' := K\<rparr>)) =
      map (\<lambda>i. K ! i * of_real (suppression_factor (protocol (config_' s))
             (current_center_freq_' s) (frequency_resolution_' s) (fft_size_' s) (int i)))
        [0..<nat (fft_size_' s)]"
    using applySSBShaping_kernel [of "s\<lparr>filter_kernel_' := K\<rparr>" "fft_size_' s"
        "frequency_resolution_' s"] lK by simp
  show "length (designed_kernel s) = nat (fft_size_' s)"
    unfolding d using a lK by simp
  show "i < nat (fft_size_' s) \<Longrightarrow> designed_kernel s ! i =
      kernel_bin (config_' s) (ssb_sharp_cutoff_' s) (current_center_freq_' s)
          (low_cutoff_of s) (high_cutoff_of s) (frequency_resolution_' s)
          (fft_size_' s) (int i)
      * (if protocol (config_' s) = USB \<or> protocol (config_' s) = LSB
         then of_real (suppression_factor (protocol (config_' s)) (current_center_freq_' s)
                 (frequency_resolution_' s) (fft_size_' s) (int i))
         else 1)"
    unfolding d using a by (simp add: K)
qed

lemma spec_bin_frequency_eq: "spec_bin_frequency N df i = bin_frequency N df i"
proof -
  have "real_of_int i \<le> real_of_int N / 2 \<longleftrightarrow> i \<le> N div 2"
  proof -
    have "real_of_int i \<le> real_of_int N / 2 \<longleftrightarrow> real_of_int (2 * i) \<le> real_of_int N"
      by (simp add: field_simps)
    also have "\<dots> \<longleftrightarrow> 2 * i \<le> N" by (simp only: of_int_le_iff)
    also have "\<dots> \<longleftrightarrow> i \<le> N div 2" by presburger
    finally show ?thesis .
  qed
  then show ?thesis
    by (simp add: spec_bin_frequency_def bin_frequency_def)
qed

lemma floor_bounds: 
  "0 < (10::real) powr x" "x \<le> - 1 \<Longrightarrow> (10::real) powr x \<le> 1 / 10"
proof -
  show "0 < (10::real) powr x" by simp
  assume "x \<le> - 1"
  then have "(10::real) powr x \<le> 10 powr (- 1)" by (intro powr_mono) auto
  also have "\<dots> = 1 / 10" by (simp add: powr_minus_divide)
  finally show "(10::real) powr x \<le> 1 / 10" .
qed

lemma cmod_Complex_real: "cmod (Complex r 0 * of_real f) = \<bar>r\<bar> * \<bar>f\<bar>"
  by (simp add: norm_mult cmod_def abs_mult)

lemma max_floor: "\<exists>r. Complex (max x f) 0 = Complex r 0 \<and> f \<le> r"
  by (rule exI [of _ "max x f"]) simp

lemma kernel_bin_floor:
  "\<exists>r. kernel_bin c sh ctr lo hi df n i = Complex r 0
       \<and> 10 powr (- stopband_attenuation c / 20) \<le> r"
  unfolding kernel_bin_def Let_def by (rule max_floor)

text \<open>A successful \<^verbatim>\<open>initialize\<close> leaves a kernel of the transform size.\<close>

lemma initialize_kernel_length:
  assumes "snd (initialize m p r n s)"
  shows "length (filter_kernel_' (fst (initialize m p r n s)))
           = nat (fft_size_' (fst (initialize m p r n s)))"
  using assms
  by (simp add: initialize_def Let_def cleanup_def designFilter_def isValidForProcessing_def
      split: if_splits)

subsection \<open>More on the reference states\<close>

lemma wfm_enabled_fields:
  "protocol (config_' wfm_enabled) = WFM"
  "fft_size_' wfm_enabled = 1024"
  "frequency_resolution_' wfm_enabled = 2000"
  "passband_low_hz_' wfm_enabled = - 100000"
  "passband_high_hz_' wfm_enabled = 100000"
  "current_center_freq_' wfm_enabled = 0"
  "stopband_attenuation (config_' wfm_enabled) = 75"
  "sample_rate (config_' wfm_enabled) = 2048000"
  by (simp_all add: wfm_enabled_eq wfm_initialized_eq)

lemma usb_enabled_eq:
  "usb_enabled =
    wfm_enabled\<lparr>config_' := \<lparr>protocol = USB, shape = BLACKMAN, stopband_attenuation = 70,
                center_frequency = 0, bandwidth = 3000, sample_rate = 2048000,
                ssb_carrier_offset = 1500, ssb_sharp_cutoff = True\<rparr>,
       passband_low_hz_' := - 1500, passband_high_hz_' := 1500,
       ssb_carrier_offset_' := 1500, ssb_sharp_cutoff_' := True,
       parameters_changed_' := True,
       current_stats_' := zero_stats\<lparr>is_enabled := True, ssb_mode_active := True,
          ssb_carrier_offset_hz := 1500\<rparr>\<rparr>"
  by (simp add: usb_enabled_def setProtocol_def Let_def wfm_enabled_eq wfm_initialized_eq
      defaults_of_simps)

lemma usb_enabled_valid: "isValidForProcessing usb_enabled"
  by (simp add: usb_enabled_eq wfm_enabled_eq wfm_initialized_eq isValidForProcessing_def)

lemma usb_enabled_fields:
  "protocol (config_' usb_enabled) = USB"
  "fft_size_' usb_enabled = 1024"
  "frequency_resolution_' usb_enabled = 2000"
  "passband_low_hz_' usb_enabled = - 1500"
  "passband_high_hz_' usb_enabled = 1500"
  "current_center_freq_' usb_enabled = 0"
  "ssb_carrier_offset_' usb_enabled = 1500"
  "ssb_sharp_cutoff_' usb_enabled = True"
  "stopband_attenuation (config_' usb_enabled) = 70"
  by (simp_all add: usb_enabled_eq wfm_enabled_eq wfm_initialized_eq)

lemma usb_kernel_1023:
  "designed_kernel usb_enabled ! 1023 = Complex (10 powr (- 70 / 20)) 0 * of_real (1 / 1000)"
proof -
  have m: "max 0 ((10::real) powr (- (7 / 2))) = 10 powr (- (7 / 2))"
    by (simp add: max_def)
  show ?thesis
    using designed_kernel_length(2) [OF usb_enabled_valid, of 1023]
    by (simp add: usb_enabled_fields kernel_bin_def Let_def bin_frequency_def
        low_cutoff_of_def high_cutoff_of_def suppression_factor_def m)
qed

subsection \<open>More on \<^verbatim>\<open>process\<close>\<close>

lemma updateFilterParameters_resources:
  "resources_available (updateFilterParameters s) = resources_available s"
proof (cases "isValidForProcessing s \<and> parameters_changed_' s")
  case True
  let ?w = "passband_width (defaults_of (protocol (config_' s)))"
  let ?s1 = "(if protocol (config_' s) = USB \<or> protocol (config_' s) = LSB then
                 s\<lparr>ssb_carrier_offset_' := ssb_carrier_offset (config_' s),
                   ssb_sharp_cutoff_' := ssb_sharp_cutoff (config_' s)\<rparr>
               else if \<bar>passband_low_hz_' s + passband_high_hz_' s\<bar> < 1 then
                 s\<lparr>passband_low_hz_' := - (?w / 2), passband_high_hz_' := ?w / 2\<rparr>
               else s)"
  have v: "isValidForProcessing ?s1"
    using True by (simp add: isValidForProcessing_def)
  have u: "updateFilterParameters s = (designFilter ?s1)\<lparr>parameters_changed_' := False\<rparr>"
    using updateFilterParameters_eq [of s] True by (simp add: Let_def)
  show ?thesis
    unfolding u
    by (subst designFilter_eq [OF v]) (simp add: resources_available_def)
next
  case False
  then show ?thesis by (auto simp: updateFilterParameters_def)
qed

lemma process_resources_missing:
  assumes "isValidForProcessing s" "input \<noteq> []" "length input \<le> 10 * nat (fft_size_' s)"
    and "reserve_ok E" and "\<not> resources_available s"
  shows "snd (process E s input) = []"
proof -
  let ?a = "s\<lparr>processing_active_' := True\<rparr>"
  let ?s2 = "(if parameters_changed_' s then updateFilterParameters ?a else ?a)"
  have "\<not> resources_available ?a"
    using assms(5) by (simp add: resources_available_def)
  then have "\<not> resources_available ?s2"
    by (simp add: updateFilterParameters_resources)
  then have "process_loop E input ?s2 0 [] = (?s2, [])"
    by (rule process_loop_break)
  then show ?thesis
    using assms(1-4) by (simp add: process_def Let_def mult.commute)
qed

lemma process_redesign:
  assumes "isValidForProcessing s" "input \<noteq> []" "length input \<le> 10 * nat (fft_size_' s)"
    and "reserve_ok E" and "parameters_changed_' s"
    and "s1 = (if protocol (config_' s) = USB \<or> protocol (config_' s) = LSB then
                 s\<lparr>processing_active_' := True,
                   ssb_carrier_offset_' := ssb_carrier_offset (config_' s),
                   ssb_sharp_cutoff_' := ssb_sharp_cutoff (config_' s)\<rparr>
               else if \<bar>passband_low_hz_' s + passband_high_hz_' s\<bar> < 1 then
                 s\<lparr>processing_active_' := True,
                   passband_low_hz_' := - (passband_width (defaults_of (protocol (config_' s))) / 2),
                   passband_high_hz_' := passband_width (defaults_of (protocol (config_' s))) / 2\<rparr>
               else s\<lparr>processing_active_' := True\<rparr>)"
  shows "filter_kernel_' (fst (process E s input)) = designed_kernel s1"
    and "config_' (fst (process E s input)) = config_' s"
    and "frequency_resolution_' (fst (process E s input)) = frequency_resolution_' s"
proof -
  let ?a = "s\<lparr>processing_active_' := True\<rparr>"
  have va: "isValidForProcessing ?a" and ca: "parameters_changed_' ?a"
    using assms(1,5) by (simp_all add: isValidForProcessing_def)
  have v1: "isValidForProcessing s1"
    using assms(1) unfolding assms(6) by (simp add: isValidForProcessing_def)
  have u: "updateFilterParameters ?a = (designFilter s1)\<lparr>parameters_changed_' := False\<rparr>"
    using updateFilterParameters_eq [OF va ca] unfolding assms(6) by (simp add: Let_def)
  from process_state [OF assms(1-4) refl] assms(5) obtain fi fo where e:
      "fst (process E s input) =
           (updateFilterParameters ?a)\<lparr>fft_input_' := fi, fft_output_' := fo,
              current_stats_' := (current_stats_' (updateFilterParameters ?a))
                \<lparr>processing_time_ms := of_int (elapsed_us E) / 1000,
                 samples_processed := length input\<rparr>,
              total_samples_processed_' :=
                (total_samples_processed_' (updateFilterParameters ?a) + length input) mod 2 ^ 64,
              processing_active_' := False\<rparr>"
    by auto
  show "filter_kernel_' (fst (process E s input)) = designed_kernel s1"
    unfolding e u by (simp add: designed_kernel_def)
  show "config_' (fst (process E s input)) = config_' s"
    unfolding e u by (subst designFilter_eq [OF v1]) (simp add: assms(6))
  show "frequency_resolution_' (fst (process E s input)) = frequency_resolution_' s"
    unfolding e u by (subst designFilter_eq [OF v1]) (simp add: assms(6))
qed


lemma process_loop_length:
  assumes "isValidForProcessing s" and "resources_available s" and "pos \<le> length input"
  shows "length (snd (process_loop E input s pos out)) = length out + (length input - pos)"
  using assms
proof (induction E input s pos out rule: process_loop.induct)
  case (1 E input s pos out)
  show ?case
  proof (cases "pos < length input")
    case True
    let ?n = "fft_size_' s"
    let ?bs = "min (nat ?n) (length input - pos)"
    obtain a b c where pb:
      "process_block E ?n (filter_kernel_' s) input pos ?bs = (a, b, c)"
      by (metis prod_cases3)
    have c: "length c = ?bs"
      using pb by (auto simp: process_block_def Let_def)
    let ?s' = "s\<lparr>fft_input_' := Some a, fft_output_' := Some b\<rparr>"
    have step: "process_loop E input s pos out = process_loop E input ?s' (pos + ?bs) (out @ c)"
      using process_loop_step [OF True "1.prems"(1,2) pb] .
    have nm: "\<not> (fft_input_' s = None \<or> fft_output_' s = None
             \<or> forward_plan_' s = None \<or> inverse_plan_' s = None)"
      using "1.prems"(2) by (simp add: resources_available_def)
    have cnd: "pos < length input \<and> isValidForProcessing s" using True "1.prems"(1) by simp
    have v': "isValidForProcessing ?s'" using "1.prems"(1) by (simp add: isValidForProcessing_def)
    have r': "resources_available ?s'" using "1.prems"(2) by (simp add: resources_available_def)
    have p': "pos + ?bs \<le> length input" using True by simp
    have "length (snd (process_loop E input ?s' (pos + ?bs) (out @ c)))
            = length (out @ c) + (length input - (pos + ?bs))"
      by (rule "1.IH" [OF cnd refl refl nm refl pb [symmetric] refl v' r' p'])
    also have "\<dots> = length out + (length input - pos)"
      using True c by simp
    finally show ?thesis using step by simp
  next
    case False
    then show ?thesis using "1.prems"(3) by (simp add: process_loop_stop)
  qed
qed






subsection \<open>The redesigned reference state\<close>

lemma wfm_dirty_eq:
  "setCenterFrequency 0 wfm_enabled = wfm_enabled\<lparr>parameters_changed_' := True\<rparr>"
  by (simp add: setCenterFrequency_def wfm_enabled_eq wfm_initialized_eq)

lemma wfm_redesigned_fields:
  "isValidForProcessing wfm_redesigned"
  "fft_size_' wfm_redesigned = 1024"
  "frequency_resolution_' wfm_redesigned = 2000"
  "sample_rate (config_' wfm_redesigned) = 2048000"
  "length (filter_kernel_' wfm_redesigned) = 1024"
  "filter_kernel_' wfm_redesigned ! 0 = Complex 1 0"
  "filter_kernel_' wfm_redesigned ! 512 = Complex (10 powr (- (75 / 20))) 0"
  "filter_kernel_' wfm_redesigned ! 587 = Complex (10 powr (- (75 / 20))) 0"
proof -
  let ?d = "setCenterFrequency 0 wfm_enabled"
  let ?s1 = "wfm_enabled\<lparr>parameters_changed_' := True, processing_active_' := True,
                   passband_low_hz_' := - 100000, passband_high_hz_' := 100000\<rparr>"
  have v: "isValidForProcessing ?d" and c: "parameters_changed_' ?d"
    and n: "fft_size_' ?d = 1024"
    unfolding wfm_dirty_eq
    by (simp_all add: wfm_enabled_eq wfm_initialized_eq isValidForProcessing_def)
  have r: "reserve_ok fftw" by (simp add: fftw_def)
  have i: "[1::complex] \<noteq> []" "length [1::complex] \<le> 10 * nat (fft_size_' ?d)"
    using n by simp_all
  have s1: "?s1 = (if protocol (config_' ?d) = USB \<or> protocol (config_' ?d) = LSB then
                 ?d\<lparr>processing_active_' := True,
                   ssb_carrier_offset_' := ssb_carrier_offset (config_' ?d),
                   ssb_sharp_cutoff_' := ssb_sharp_cutoff (config_' ?d)\<rparr>
               else if \<bar>passband_low_hz_' ?d + passband_high_hz_' ?d\<bar> < 1 then
                 ?d\<lparr>processing_active_' := True,
                   passband_low_hz_' := - (passband_width (defaults_of (protocol (config_' ?d))) / 2),
                   passband_high_hz_' := passband_width (defaults_of (protocol (config_' ?d))) / 2\<rparr>
               else ?d\<lparr>processing_active_' := True\<rparr>)"
    unfolding wfm_dirty_eq
    by (simp add: wfm_enabled_eq wfm_initialized_eq defaults_of_simps)
  note pr = process_redesign [OF v i r c s1]
  have v1: "isValidForProcessing ?s1"
    by (simp add: wfm_enabled_eq wfm_initialized_eq isValidForProcessing_def)
  have f1: "config_' ?s1 = config_' wfm_enabled" "ssb_sharp_cutoff_' ?s1 = False"
    "current_center_freq_' ?s1 = 0" "low_cutoff_of ?s1 = - 100000" "high_cutoff_of ?s1 = 100000"
    "frequency_resolution_' ?s1 = 2000" "fft_size_' ?s1 = 1024"
    by (simp_all add: wfm_enabled_eq wfm_initialized_eq low_cutoff_of_def high_cutoff_of_def)
  have m: "max 0 ((10::real) powr (- (15 / 4))) = 10 powr (- (15 / 4))"
     "max 1 ((10::real) powr (- (15 / 4))) = 1"
    using floor_bounds [of "- (15 / 4)"] by (simp_all add: max_def)
  show "isValidForProcessing wfm_redesigned"
    unfolding wfm_redesigned_def by (rule process_counters(3) [OF v i r])
  show "fft_size_' wfm_redesigned = 1024"
    unfolding wfm_redesigned_def using process_counters(4) [OF v i r] n by simp
  show "frequency_resolution_' wfm_redesigned = 2000"
    using pr(3) unfolding wfm_redesigned_def wfm_dirty_eq
    by (simp add: wfm_enabled_fields)
  show "sample_rate (config_' wfm_redesigned) = 2048000"
    using pr(2) unfolding wfm_redesigned_def wfm_dirty_eq
    by (simp add: wfm_enabled_fields)
  show "length (filter_kernel_' wfm_redesigned) = 1024"
    unfolding wfm_redesigned_def pr(1) designed_kernel_length(1) [OF v1] f1 by simp
  show "filter_kernel_' wfm_redesigned ! 0 = Complex 1 0"
    unfolding wfm_redesigned_def pr(1)
    using designed_kernel_length(2) [OF v1, of 0]
    by (simp add: f1 wfm_enabled_fields kernel_bin_def bin_frequency_def Let_def m)
  show "filter_kernel_' wfm_redesigned ! 512 = Complex (10 powr (- (75 / 20))) 0"
    unfolding wfm_redesigned_def pr(1)
    using designed_kernel_length(2) [OF v1, of 512]
    by (simp add: f1 wfm_enabled_fields kernel_bin_def bin_frequency_def Let_def m)
  show "filter_kernel_' wfm_redesigned ! 587 = Complex (10 powr (- (75 / 20))) 0"
    unfolding wfm_redesigned_def pr(1)
    using designed_kernel_length(2) [OF v1, of 587]
    by (simp add: f1 wfm_enabled_fields kernel_bin_def bin_frequency_def Let_def m)
qed

lemma float_to_int_numeral [simp]:
  "float_to_int (numeral n) = numeral n" "float_to_int 0 = 0"
  by (simp_all add: float_to_int_def)

subsection \<open>The discrete Fourier transform and its inverse\<close>



section \<open>Bypass of \<^verbatim>\<open>process\<close>\<close>

text \<open>
  Claim C8. \<^verbatim>\<open>process\<close> returns its input, the very same sequence, whenever the
  filter is not initialised, or not enabled, or its block size or its frequency
  resolution is not positive, or the input is empty, or the input is longer than ten
  block sizes.
\<close>

theorem process_bypass_identity:
  "\<not> initialized_' s \<or> \<not> enabled_' s \<or> fft_size_' s \<le> 0 \<or> frequency_resolution_' s \<le> 0
    \<or> input = [] \<or> length input > 10 * nat (fft_size_' s)
   \<Longrightarrow> snd (process E s input) = input"
  by (auto simp: process_def isValidForProcessing_def Let_def)

theorem process_bypass_identity_witness:
  "length (replicate 10241 (0::complex)) > 10 * nat (fft_size_' wfm_enabled)
   \<and> isValidForProcessing wfm_enabled
   \<and> snd (process fftw wfm_enabled (replicate 10241 0)) = replicate 10241 0"
proof -
  have h: "length (replicate 10241 (0::complex)) > 10 * nat (fft_size_' wfm_enabled)"
    by (simp add: wfm_enabled_eq wfm_initialized_eq)
  then show ?thesis
    using process_bypass_identity [of wfm_enabled "replicate 10241 0" fftw]
      wfm_enabled_valid
    by simp
qed

section \<open>Mutators before initialisation\<close>

text \<open>
  Claim C4, as stated: every configuration mutator is a no-op before a successful
  \<^verbatim>\<open>initialize\<close>. \<^verbatim>\<open>setEnabled\<close> has no such guard: on a freshly constructed filter
  it changes the enabled flag that \<^verbatim>\<open>getStats\<close> reports.
\<close>

theorem setEnabled_before_initialize_counterexample:
  "\<not> isInitialized constructor
   \<and> is_enabled (getStats (setEnabled True constructor)) \<noteq> is_enabled (getStats constructor)"
  by (simp add: isInitialized_def constructor_def setEnabled_def getStats_def zero_stats_def)

text \<open>
  Claim C4, amended: before a successful \<^verbatim>\<open>initialize\<close>, \<^verbatim>\<open>setProtocol\<close>,
  \<^verbatim>\<open>configure\<close>, \<^verbatim>\<open>setPassband\<close>, \<^verbatim>\<open>setCenterFrequency\<close>, \<^verbatim>\<open>setSSBCarrierOffset\<close>
  and \<^verbatim>\<open>setSSBSharpCutoff\<close> leave the whole object unchanged; \<^verbatim>\<open>setEnabled\<close> stores
  the flag and mirrors it in the statistics, and changes nothing else.
\<close>

theorem mutators_before_initialize:
  "\<not> initialized_' s \<Longrightarrow>
     setProtocol p s = s \<and> configure c s = s \<and> setPassband lo hi s = s
     \<and> setCenterFrequency f s = s \<and> setSSBCarrierOffset off s = s
     \<and> setSSBSharpCutoff b s = s
     \<and> setEnabled e s
         = s\<lparr>enabled_' := e, current_stats_' := (current_stats_' s)\<lparr>is_enabled := e\<rparr>\<rparr>"
  by (simp add: setProtocol_def configure_def setPassband_def setCenterFrequency_def
      setSSBCarrierOffset_def setSSBSharpCutoff_def setEnabled_def)

theorem mutators_before_initialize_witness:
  "\<not> initialized_' constructor
   \<and> setProtocol USB constructor = constructor
   \<and> configure ((config_' constructor)\<lparr>bandwidth := 1\<rparr>) constructor = constructor
   \<and> setPassband (- 5) 5 constructor = constructor
   \<and> setCenterFrequency 100 constructor = constructor
   \<and> setSSBCarrierOffset 100 constructor = constructor
   \<and> setSSBSharpCutoff True constructor = constructor
   \<and> setEnabled True constructor
       = constructor\<lparr>enabled_' := True,
           current_stats_' := (current_stats_' constructor)\<lparr>is_enabled := True\<rparr>\<rparr>"
proof -
  have h: "\<not> initialized_' constructor" by (simp add: constructor_def)
  show ?thesis
    using h mutators_before_initialize [OF h, of USB
        "(config_' constructor)\<lparr>bandwidth := 1\<rparr>" "- 5" 5 100 100 True True]
    by simp
qed

section \<open>Protocol switching\<close>

text \<open>
  Claim C7. On an initialised filter \<^verbatim>\<open>setProtocol(p)\<close> changes nothing when \<open>p\<close> is
  the current protocol; otherwise it stores \<open>p\<close>, overwrites bandwidth, stopband
  attenuation, SSB carrier offset and SSB sharpness with the defaults of \<open>p\<close> and
  sets the passband edges to minus and plus half the default width. Hence
  \<^verbatim>\<open>setProtocol(USB)\<close>, \<^verbatim>\<open>setProtocol(LSB)\<close> and \<^verbatim>\<open>setProtocol\<close> of the original
  protocol leave that protocol, with its default passband width and its default
  stopband attenuation as \<^verbatim>\<open>getStats\<close> reports them.
\<close>

theorem setProtocol_defaults:
  "initialized_' s \<Longrightarrow>
    (protocol (config_' s) = p \<longrightarrow> setProtocol p s = s)
    \<and> (protocol (config_' s) \<noteq> p \<longrightarrow>
          (let s' = setProtocol p s; d = defaults_of p in
            protocol (config_' s') = p
            \<and> bandwidth (config_' s') = passband_width d
            \<and> stopband_attenuation (config_' s') = stopband_atten d
            \<and> ssb_carrier_offset (config_' s') = carrier_offset d
            \<and> ssb_sharp_cutoff (config_' s') = sharp_cutoff d
            \<and> ssb_carrier_offset_' s' = carrier_offset d
            \<and> ssb_sharp_cutoff_' s' = sharp_cutoff d
            \<and> passband_low_hz_' s' = - (passband_width d / 2)
            \<and> passband_high_hz_' s' = passband_width d / 2))
    \<and> (let p0 = protocol (config_' s);
            s3 = setProtocol p0 (setProtocol LSB (setProtocol USB s))
        in protocol (getConfiguration s3) = p0
           \<and> passband_width_hz (getStats s3) = passband_width (defaults_of p0)
           \<and> stopband_attenuation_db (getStats s3) = stopband_atten (defaults_of p0))"
  by (auto simp: setProtocol_def Let_def getStats_def getConfiguration_def)

theorem setProtocol_defaults_witness:
  "initialized_' wfm_initialized
   \<and> protocol (config_' wfm_initialized) \<noteq> USB
   \<and> stopband_attenuation (config_' (setProtocol USB wfm_initialized)) = 70
   \<and> passband_low_hz_' (setProtocol USB wfm_initialized) = - 1500
   \<and> passband_high_hz_' (setProtocol USB wfm_initialized) = 1500
   \<and> passband_width_hz (getStats (setProtocol WFM (setProtocol LSB
        (setProtocol USB wfm_initialized)))) = 200000
   \<and> stopband_attenuation_db (getStats (setProtocol WFM (setProtocol LSB
        (setProtocol USB wfm_initialized)))) = 60"
proof -
  have h: "initialized_' wfm_initialized" by (simp add: wfm_initialized_eq)
  have p: "protocol (config_' wfm_initialized) = WFM" by (simp add: wfm_initialized_eq)
  show ?thesis
    using h p setProtocol_defaults [OF h, of USB]
    by (simp add: Let_def defaults_of_simps)
qed

section \<open>The symmetric passband and the redesign\<close>

text \<open>
  Claim C9. When the dirty flag triggers a redesign and the protocol is neither USB
  nor LSB: if the stored passband edges are symmetric to within 1 Hz, the parameter
  update first overwrites them with minus and plus half the default width of the
  protocol and then designs the kernel, so that after the next call of \<^verbatim>\<open>process\<close>
  that is not bypassed the edges are the defaults; otherwise the edges stay as they
  are.
\<close>

theorem symmetric_passband_overwritten_on_redesign:
  assumes "isValidForProcessing s" and "parameters_changed_' s"
    and "protocol (config_' s) \<noteq> USB" and "protocol (config_' s) \<noteq> LSB"
    and "input \<noteq> []" and "length input \<le> 10 * nat (fft_size_' s)"
    and "w = passband_width (defaults_of (protocol (config_' s)))"
  shows "(\<bar>passband_low_hz_' s + passband_high_hz_' s\<bar> < 1 \<longrightarrow>
            updateFilterParameters s =
              (designFilter (s\<lparr>passband_low_hz_' := - (w / 2), passband_high_hz_' := w / 2\<rparr>))
                \<lparr>parameters_changed_' := False\<rparr>
            \<and> passband_low_hz_' (fst (process E s input)) = - (w / 2)
            \<and> passband_high_hz_' (fst (process E s input)) = w / 2)
       \<and> (\<not> \<bar>passband_low_hz_' s + passband_high_hz_' s\<bar> < 1 \<longrightarrow>
            updateFilterParameters s = (designFilter s)\<lparr>parameters_changed_' := False\<rparr>
            \<and> passband_low_hz_' (fst (process E s input)) = passband_low_hz_' s
            \<and> passband_high_hz_' (fst (process E s input)) = passband_high_hz_' s)"
  using assms(2-4,7) updateFilterParameters_eq [OF assms(1,2)]
    process_passband [OF assms(1,5,6), of E]
    updateFilterParameters_passband [OF assms(1,2)]
  by (simp add: Let_def)

theorem symmetric_passband_overwritten_on_redesign_witness:
  "isValidForProcessing (setPassband (- 50000) 50000 wfm_enabled)
   \<and> parameters_changed_' (setPassband (- 50000) 50000 wfm_enabled)
   \<and> protocol (config_' (setPassband (- 50000) 50000 wfm_enabled)) = WFM
   \<and> passband_low_hz_' (setPassband (- 50000) 50000 wfm_enabled) = - 50000
   \<and> passband_high_hz_' (setPassband (- 50000) 50000 wfm_enabled) = 50000
   \<and> passband_low_hz_' (fst (process fftw (setPassband (- 50000) 50000 wfm_enabled) [1]))
       = - 100000
   \<and> passband_high_hz_' (fst (process fftw (setPassband (- 50000) 50000 wfm_enabled) [1]))
       = 100000
   \<and> passband_low_hz_' (fst (process fftw (setPassband (- 50000) 60000 wfm_enabled) [1]))
       = - 50000
   \<and> passband_high_hz_' (fst (process fftw (setPassband (- 50000) 60000 wfm_enabled) [1]))
       = 60000"
proof -
  have f: "\<And>hi. (- 50000 :: real) < hi \<Longrightarrow>
       isValidForProcessing (setPassband (- 50000) hi wfm_enabled)
       \<and> parameters_changed_' (setPassband (- 50000) hi wfm_enabled)
       \<and> protocol (config_' (setPassband (- 50000) hi wfm_enabled)) = WFM
       \<and> fft_size_' (setPassband (- 50000) hi wfm_enabled) = 1024
       \<and> passband_low_hz_' (setPassband (- 50000) hi wfm_enabled) = - 50000
       \<and> passband_high_hz_' (setPassband (- 50000) hi wfm_enabled) = hi"
    by (simp add: setPassband_def wfm_enabled_eq wfm_initialized_eq isValidForProcessing_def)
  have 1: "passband_low_hz_' (fst (process fftw (setPassband (- 50000) 50000 wfm_enabled) [1]))
       = - 100000
   \<and> passband_high_hz_' (fst (process fftw (setPassband (- 50000) 50000 wfm_enabled) [1]))
       = 100000"
    using f [of 50000]
      symmetric_passband_overwritten_on_redesign
        [of "setPassband (- 50000) 50000 wfm_enabled" "[1]" 200000 fftw]
    by (simp add: defaults_of_simps)
  have 2: "passband_low_hz_' (fst (process fftw (setPassband (- 50000) 60000 wfm_enabled) [1]))
       = - 50000
   \<and> passband_high_hz_' (fst (process fftw (setPassband (- 50000) 60000 wfm_enabled) [1]))
       = 60000"
    using f [of 60000]
      symmetric_passband_overwritten_on_redesign
        [of "setPassband (- 50000) 60000 wfm_enabled" "[1]" 200000 fftw]
    by (simp add: defaults_of_simps)
  show ?thesis using f [of 50000] 1 2 by simp
qed

section \<open>The sample counters\<close>

text \<open>
  Claim C3, as stated: \<^verbatim>\<open>samples_processed\<close>, as \<^verbatim>\<open>getStats\<close> returns it, is the
  running total of the samples of all successful calls. After a call on one sample
  and a call on two samples it is two, not three.
\<close>

theorem samples_processed_not_cumulative_counterexample:
  "samples_processed (getStats (fst (process fftw (fst (process fftw wfm_enabled [1])) [2, 3])))
   \<noteq> length [1 :: complex] + length [2, 3 :: complex]"
proof -
  have r: "reserve_ok fftw" by (simp add: fftw_def)
  have n: "fft_size_' wfm_enabled = 1024"
    by (simp add: wfm_enabled_eq wfm_initialized_eq)
  have 1: "isValidForProcessing (fst (process fftw wfm_enabled [1]))"
     "fft_size_' (fst (process fftw wfm_enabled [1])) = 1024"
    using process_counters(3,4) [OF wfm_enabled_valid _ _ r, of "[1]"] n by simp_all
  have "samples_processed
          (getStats (fst (process fftw (fst (process fftw wfm_enabled [1])) [2, 3]))) = 2"
    using process_counters(1) [OF 1(1) _ _ r, of "[2, 3]"] 1(2) by simp
  then show ?thesis by simp
qed

text \<open>
  Claim C3, amended: \<^verbatim>\<open>samples_processed\<close>, as \<^verbatim>\<open>getStats\<close> returns it, is the
  length of the input of the last call of \<^verbatim>\<open>process\<close> that ran the block loop; a
  bypassed call leaves it as it is; \<^verbatim>\<open>reset\<close> and a successful \<^verbatim>\<open>initialize\<close> set it
  to zero. The running total of those lengths, modulo \<open>2^64\<close>, is the internal counter
  \<^verbatim>\<open>total_samples_processed_\<close>, which \<^verbatim>\<open>getStats\<close> does not return: each such call
  adds to it, \<^verbatim>\<open>reset\<close> sets it to zero, and a bypassed call, \<^verbatim>\<open>initialize\<close> and
  the mutators leave it as it is.
\<close>

theorem samples_processed_last_call:
  "(isValidForProcessing s \<and> input \<noteq> [] \<and> length input \<le> 10 * nat (fft_size_' s)
      \<and> reserve_ok E \<longrightarrow>
       samples_processed (getStats (fst (process E s input))) = length input
       \<and> total_samples_processed_' (fst (process E s input)) =
           (total_samples_processed_' s + length input) mod 2 ^ 64)
   \<and> (\<not> isValidForProcessing s \<or> input = [] \<or> length input > 10 * nat (fft_size_' s) \<longrightarrow>
       samples_processed (getStats (fst (process E s input))) = samples_processed (getStats s)
       \<and> total_samples_processed_' (fst (process E s input)) = total_samples_processed_' s)
   \<and> (initialized_' s \<longrightarrow>
       samples_processed (getStats (reset s)) = 0 \<and> total_samples_processed_' (reset s) = 0)
   \<and> (snd (initialize m p r n s) \<longrightarrow>
       samples_processed (getStats (fst (initialize m p r n s))) = 0)
   \<and> total_samples_processed_' (fst (initialize m p r n s)) = total_samples_processed_' s
   \<and> total_samples_processed_' (setProtocol q s) = total_samples_processed_' s
   \<and> total_samples_processed_' (setEnabled e s) = total_samples_processed_' s
   \<and> total_samples_processed_' (configure c s) = total_samples_processed_' s
   \<and> total_samples_processed_' (setPassband lo hi s) = total_samples_processed_' s
   \<and> total_samples_processed_' (setCenterFrequency f s) = total_samples_processed_' s
   \<and> total_samples_processed_' (setSSBCarrierOffset off s) = total_samples_processed_' s
   \<and> total_samples_processed_' (setSSBSharpCutoff b s) = total_samples_processed_' s"
proof (intro conjI impI)
  assume a: "isValidForProcessing s \<and> input \<noteq> [] \<and> length input \<le> 10 * nat (fft_size_' s)
      \<and> reserve_ok E"
  then show "samples_processed (getStats (fst (process E s input))) = length input"
    using process_counters(1) by blast
  from a show "total_samples_processed_' (fst (process E s input)) =
           (total_samples_processed_' s + length input) mod 2 ^ 64"
    using process_counters(2) by blast
next
  assume b: "\<not> isValidForProcessing s \<or> input = [] \<or> length input > 10 * nat (fft_size_' s)"
  then show "samples_processed (getStats (fst (process E s input)))
      = samples_processed (getStats s)"
    by (auto simp: process_def Let_def getStats_def)
  from b show "total_samples_processed_' (fst (process E s input))
      = total_samples_processed_' s"
    by (auto simp: process_def Let_def)
next
  assume i: "initialized_' s"
  then show "samples_processed (getStats (reset s)) = 0"
    by (simp add: reset_def getStats_def)
  from i show "total_samples_processed_' (reset s) = 0"
    by (simp add: reset_def)
next
  assume "snd (initialize m p r n s)"
  then show "samples_processed (getStats (fst (initialize m p r n s))) = 0"
    by (simp add: initialize_def Let_def getStats_def zero_stats_def split: if_splits)
next
  show "total_samples_processed_' (fst (initialize m p r n s)) = total_samples_processed_' s"
    by (simp add: initialize_def Let_def designFilter_counters cleanup_def)
qed (simp_all add: setProtocol_def setEnabled_def configure_def setPassband_def
      setCenterFrequency_def setSSBCarrierOffset_def setSSBSharpCutoff_def Let_def)

theorem samples_processed_last_call_witness:
  "isValidForProcessing wfm_enabled \<and> reserve_ok fftw
   \<and> length [1, 2, 3 :: complex] \<le> 10 * nat (fft_size_' wfm_enabled)
   \<and> samples_processed (getStats (fst (process fftw wfm_enabled [1, 2, 3]))) = 3
   \<and> total_samples_processed_' (fst (process fftw wfm_enabled [1, 2, 3])) = 3
   \<and> initialized_' wfm_enabled
   \<and> samples_processed (getStats (reset wfm_enabled)) = 0
   \<and> total_samples_processed_' (reset wfm_enabled) = 0
   \<and> snd (initialize True True 2048000 1024 wfm_enabled)
   \<and> samples_processed (getStats (fst (initialize True True 2048000 1024 wfm_enabled))) = 0"
proof -
  have h: "isValidForProcessing wfm_enabled" "reserve_ok fftw"
    "length [1, 2, 3 :: complex] \<le> 10 * nat (fft_size_' wfm_enabled)"
    "initialized_' wfm_enabled" "total_samples_processed_' wfm_enabled = 0"
    "snd (initialize True True 2048000 1024 wfm_enabled)"
    by (simp_all add: isValidForProcessing_def fftw_def wfm_enabled_eq wfm_initialized_eq
        initialize_def Let_def)
  show ?thesis
    using h samples_processed_last_call
      [of wfm_enabled "[1, 2, 3]" fftw True True 2048000 1024]
    by simp
qed

section \<open>The response query\<close>

text \<open>
  What \<^verbatim>\<open>getResponse\<close> returns on a ready filter for a frequency within the Nyquist
  range: the gain of the bin \<open>(frequency + Nyquist) / \<Delta>f\<close>, rounded down and clamped.
  Bin 0 answers for minus the Nyquist frequency and bin \<open>N/2\<close> for 0 Hz, whereas the
  design loops store the gain for 0 Hz in bin 0 and the gain for the Nyquist frequency
  in bin \<open>N/2\<close>.
\<close>

lemma getResponse_reads_shifted_bin:
  assumes "isValidForProcessing s" and "length (filter_kernel_' s) = nat (fft_size_' s)"
    and "\<bar>f\<bar> \<le> sample_rate (config_' s) / 2"
  shows "getResponse s f =
    cmod (filter_kernel_' s !
      nat (clamp \<lfloor>(f + sample_rate (config_' s) / 2) / frequency_resolution_' s\<rfloor>
             0 (fft_size_' s - 1)))"
proof -
  have n: "0 < fft_size_' s" and r: "0 < frequency_resolution_' s"
    using assms(1) by (simp_all add: isValidForProcessing_def)
  have k: "filter_kernel_' s \<noteq> []" using assms(2) n by auto
  have "0 \<le> f + sample_rate (config_' s) / 2" using assms(3) by linarith
  then have p: "0 \<le> (f + sample_rate (config_' s) / 2) / frequency_resolution_' s"
    using r by simp
  have c: "clamp b 0 (fft_size_' s - 1) < int (length (filter_kernel_' s))" for b
    using n assms(2) by (simp add: clamp_def)
  show ?thesis
    using assms(1,3) k p c by (simp add: getResponse_def Let_def float_to_int_def)
qed

text \<open>
  Claim C1 says that after a successful \<^verbatim>\<open>initialize\<close> with the default WFM
  configuration \<^verbatim>\<open>getResponse(0)\<close> is about one and \<^verbatim>\<open>getResponse(f)\<close> is about
  \<open>10^(-75/20)\<close> for \<open>f\<close> beyond the passband and its transition. The code, at
  \<^verbatim>\<open>initialize(2048000, 1024)\<close>: right after initialisation, and also once the filter
  is enabled, \<^verbatim>\<open>getResponse(150000)\<close> is one; once a kernel has been designed,
  \<^verbatim>\<open>getResponse(0)\<close> is the stopband floor \<open>10^(-75/20)\<close>, at most a tenth, and the
  unit gain of the passband centre is what \<^verbatim>\<open>getResponse\<close> returns at minus the
  Nyquist frequency.
\<close>

theorem getResponse_wfm_default:
  "snd (initialize True True 2048000 1024 constructor)
   \<and> getResponse wfm_initialized 150000 = 1
   \<and> getResponse wfm_enabled 150000 = 1
   \<and> getResponse wfm_redesigned 0 = 10 powr (- (75 / 20))
   \<and> getResponse wfm_redesigned 0 \<le> 1 / 10
   \<and> getResponse wfm_redesigned (- 1024000) = 1"
proof -
  have 0: "snd (initialize True True 2048000 1024 constructor)"
    by (simp add: initialize_def Let_def)
  have 1: "getResponse wfm_initialized 150000 = 1"
    by (simp add: getResponse_def wfm_initialized_eq isValidForProcessing_def)
  have 2: "getResponse wfm_enabled 150000 = 1"
    by (simp add: getResponse_def wfm_enabled_eq wfm_initialized_eq isValidForProcessing_def
        Let_def clamp_def float_to_int_def)
  have k: "filter_kernel_' wfm_redesigned \<noteq> []"
    using wfm_redesigned_fields(5) by auto
  have 3: "getResponse wfm_redesigned 0 = 10 powr (- (75 / 20))"
    using k by (simp add: getResponse_def wfm_redesigned_fields Let_def clamp_def cmod_def)
  have 4: "getResponse wfm_redesigned (- 1024000) = 1"
    using k by (simp add: getResponse_def wfm_redesigned_fields Let_def clamp_def cmod_def)
  have 5: "(10::real) powr (- (75 / 20)) \<le> 1 / 10"
    by (rule floor_bounds(2)) simp
  show ?thesis using 0 1 2 3 4 5 by simp
qed

theorem getResponse_wfm_default_witness:
  "getResponse wfm_redesigned 0 < 1 / 2 \<and> 1 / 2 < getResponse wfm_enabled 150000
   \<and> getResponse wfm_redesigned 0 < getResponse wfm_redesigned (- 1024000)"
  using getResponse_wfm_default by simp

section \<open>Missing transform resources\<close>

text \<open>
  Claim C2 says that a call of \<^verbatim>\<open>process\<close> that finds buffers or plans missing
  returns its input unchanged. The code leaves the loop and returns the output built
  so far: on the filter whose resources are gone, \<^verbatim>\<open>process\<close> of three samples
  returns no sample, and records three processed samples.
\<close>

theorem missing_resources_truncate:
  "isValidForProcessing wfm_torn
   \<and> snd (process fftw wfm_torn [1, 2, 3]) = []
   \<and> samples_processed (getStats (fst (process fftw wfm_torn [1, 2, 3]))) = 3"
proof -
  have v: "isValidForProcessing wfm_torn"
    by (simp add: wfm_torn_def wfm_enabled_eq wfm_initialized_eq isValidForProcessing_def)
  have n: "fft_size_' wfm_torn = 1024"
    by (simp add: wfm_torn_def wfm_enabled_eq wfm_initialized_eq)
  have r: "reserve_ok fftw" by (simp add: fftw_def)
  have m: "\<not> resources_available wfm_torn"
    by (simp add: wfm_torn_def resources_available_def)
  show ?thesis
    using v process_resources_missing [OF v _ _ r m, of "[1, 2, 3]"]
      process_counters(1) [OF v _ _ r, of "[1, 2, 3]"] n
    by simp
qed

theorem missing_resources_truncate_witness:
  "isValidForProcessing wfm_torn \<and> \<not> resources_available wfm_torn
   \<and> snd (process fftw wfm_torn [1, 2, 3]) \<noteq> [1, 2, 3]"
  using missing_resources_truncate by (simp add: wfm_torn_def resources_available_def)

section \<open>The stopband floor\<close>

text \<open>
  Claim C5, as stated: after every design pass every bin of the kernel has a gain of
  at least \<open>10^(-stopband_attenuation/20)\<close>, for USB and LSB too. After a design
  pass on the enabled USB filter, bin 1023 (\<open>-2000\<close> Hz) is below that floor.
\<close>

theorem ssb_kernel_below_floor_counterexample:
  "isValidForProcessing usb_enabled
   \<and> cmod (filter_kernel_' (designFilter usb_enabled) ! 1023)
       < 10 powr (- stopband_attenuation (config_' usb_enabled) / 20)"
proof -
  have "cmod (designed_kernel usb_enabled ! 1023) = 10 powr (- 70 / 20) * (1 / 1000)"
    unfolding usb_kernel_1023 cmod_Complex_real by simp
  also have "\<dots> < 10 powr (- 70 / 20)"
    using floor_bounds(1) [of "- 70 / 20"] by simp
  finally show ?thesis
    using usb_enabled_valid by (simp add: designed_kernel_def usb_enabled_fields)
qed

text \<open>
  Claim C5, amended: after a design pass, every bin of the kernel of a protocol other
  than USB and LSB has a gain of at least \<open>min_response = 10^(-stopband_attenuation/20)\<close>,
  and so has every bin of a USB kernel at or above the centre frequency and every bin
  of an LSB kernel at or below it. A bin on the suppressed side (below the centre for
  USB, above it for LSB) is scaled after the floor, and its gain is at least
  \<open>0.001 \<cdot> min_response\<close> within 3 kHz of the centre and at least
  \<open>0.1 \<cdot> min_response\<close> farther away.
\<close>

theorem kernel_floor:
  assumes "isValidForProcessing s"
    and "i < nat (fft_size_' s)"
    and "g = cmod (designed_kernel s ! i)"
    and "min_response = 10 powr (- stopband_attenuation (config_' s) / 20)"
    and "freq = bin_frequency (fft_size_' s) (frequency_resolution_' s) (int i)"
  shows "(protocol (config_' s) \<noteq> USB \<and> protocol (config_' s) \<noteq> LSB \<longrightarrow> g \<ge> min_response)
    \<and> (protocol (config_' s) = USB \<and> freq \<ge> current_center_freq_' s \<longrightarrow> g \<ge> min_response)
    \<and> (protocol (config_' s) = LSB \<and> freq \<le> current_center_freq_' s \<longrightarrow> g \<ge> min_response)
    \<and> (protocol (config_' s) = USB \<and> freq < current_center_freq_' s
        \<or> protocol (config_' s) = LSB \<and> freq > current_center_freq_' s \<longrightarrow>
          g \<ge> (if \<bar>freq - current_center_freq_' s\<bar> < 3000 then 0.001 else 0.1) * min_response)"
proof -
  obtain r where r: "kernel_bin (config_' s) (ssb_sharp_cutoff_' s) (current_center_freq_' s)
          (low_cutoff_of s) (high_cutoff_of s) (frequency_resolution_' s)
          (fft_size_' s) (int i) = Complex r 0" "r \<ge> min_response"
    using kernel_bin_floor assms(4) by blast
  have p: "0 < min_response" using assms(4) by simp
  then have a: "\<bar>r\<bar> = r" using r(2) by simp
  let ?f = "suppression_factor (protocol (config_' s)) (current_center_freq_' s)
                 (frequency_resolution_' s) (fft_size_' s) (int i)"
  have g: "g = (if protocol (config_' s) = USB \<or> protocol (config_' s) = LSB
                then r * \<bar>?f\<bar> else r)"
    using designed_kernel_length(2) [OF assms(1,2)] assms(3) r(1) a
      cmod_Complex_real [of r ?f] cmod_Complex_real [of r 1]
    by (simp split: if_splits)
  have f: "?f = (if protocol (config_' s) = USB \<and> freq < current_center_freq_' s
                    \<or> protocol (config_' s) = LSB \<and> freq > current_center_freq_' s
                 then (if \<bar>freq - current_center_freq_' s\<bar> < 3000 then 0.001 else 0.1)
                 else 1)"
    by (auto simp: suppression_factor_def Let_def assms(5))
  have m: "r * (1 / 1000) \<ge> (1 / 1000) * min_response" "r * (1 / 10) \<ge> (1 / 10) * min_response"
    using r(2) by simp_all
  show ?thesis
    unfolding g f using r(2) m by auto
qed

theorem kernel_floor_witness:
  "isValidForProcessing usb_enabled \<and> 1023 < nat (fft_size_' usb_enabled)
   \<and> protocol (config_' usb_enabled) = USB
   \<and> bin_frequency (fft_size_' usb_enabled) (frequency_resolution_' usb_enabled) (int 1023)
       = - 2000
   \<and> bin_frequency (fft_size_' usb_enabled) (frequency_resolution_' usb_enabled) (int 1)
       = 2000
   \<and> current_center_freq_' usb_enabled = 0
   \<and> cmod (designed_kernel usb_enabled ! 1023) \<ge> 0.001 * 10 powr (- 70 / 20)
   \<and> cmod (designed_kernel usb_enabled ! 1) \<ge> 10 powr (- 70 / 20)
   \<and> isValidForProcessing wfm_enabled \<and> 512 < nat (fft_size_' wfm_enabled)
   \<and> protocol (config_' wfm_enabled) = WFM
   \<and> cmod (designed_kernel wfm_enabled ! 512) \<ge> 10 powr (- 75 / 20)"
proof -
  have b: "bin_frequency (fft_size_' usb_enabled) (frequency_resolution_' usb_enabled) (int 1023)
       = - 2000"
     "bin_frequency (fft_size_' usb_enabled) (frequency_resolution_' usb_enabled) (int 1)
       = 2000"
    by (simp_all add: usb_enabled_fields bin_frequency_def)
  have 1: "cmod (designed_kernel usb_enabled ! 1023) \<ge> 0.001 * 10 powr (- 70 / 20)"
    using kernel_floor [OF usb_enabled_valid _ refl refl refl, of 1023] b(1)
    by (simp add: usb_enabled_fields)
  have 2: "cmod (designed_kernel usb_enabled ! 1) \<ge> 10 powr (- 70 / 20)"
    using kernel_floor [OF usb_enabled_valid _ refl refl refl, of 1] b(2)
    by (simp add: usb_enabled_fields)
  have 3: "cmod (designed_kernel wfm_enabled ! 512) \<ge> 10 powr (- 75 / 20)"
    using kernel_floor [OF wfm_enabled_valid _ refl refl refl, of 512]
    by (simp add: wfm_enabled_fields)
  show ?thesis
    using 1 2 3 b usb_enabled_valid wfm_enabled_valid
    by (simp add: usb_enabled_fields wfm_enabled_fields)
qed

section \<open>The kernel of the protocols other than USB and LSB\<close>

text \<open>
  Claim C6. For a protocol other than USB and LSB, a design pass leaves a kernel of
  the transform size whose bin \<open>i\<close> is the complex number \<open>(r, 0)\<close>, where \<open>r\<close> is
  the larger of \<open>10^(-stopband_attenuation/20)\<close> and the response, as the
  specification words it, at the frequency of bin \<open>i\<close>, for the passband
  \<open>[passband_low + center, passband_high + center]\<close>; \<open>\<Delta>f\<close> is the stored
  frequency resolution.
\<close>

theorem non_ssb_kernel_design:
  assumes "isValidForProcessing s"
    and "protocol (config_' s) \<noteq> USB" and "protocol (config_' s) \<noteq> LSB"
  shows "length (designed_kernel s) = nat (fft_size_' s)
    \<and> (\<forall>i < nat (fft_size_' s).
          designed_kernel s ! i =
            Complex (max (spec_bandpass_response
                            (passband_low_hz_' s + current_center_freq_' s)
                            (passband_high_hz_' s + current_center_freq_' s)
                            (frequency_resolution_' s)
                            (spec_bin_frequency (fft_size_' s) (frequency_resolution_' s) (int i)))
                         (10 powr (- stopband_attenuation (config_' s) / 20)))
                    0)"
  using assms designed_kernel_length [OF assms(1)]
  by (simp add: kernel_bin_def Let_def low_cutoff_of_def high_cutoff_of_def
      spec_bandpass_response_def spec_bin_frequency_eq mult.commute)

theorem non_ssb_kernel_design_witness:
  "isValidForProcessing wfm_enabled
   \<and> protocol (config_' wfm_enabled) \<noteq> USB \<and> protocol (config_' wfm_enabled) \<noteq> LSB
   \<and> length (designed_kernel wfm_enabled) = 1024
   \<and> designed_kernel wfm_enabled ! 0 = Complex 1 0
   \<and> designed_kernel wfm_enabled ! 50 = Complex 1 0
   \<and> designed_kernel wfm_enabled ! 51 = Complex (1 / 2) 0
   \<and> designed_kernel wfm_enabled ! 512 = Complex (10 powr (- 75 / 20)) 0
   \<and> designed_kernel wfm_enabled ! 973 = Complex (1 / 2) 0
   \<and> designed_kernel wfm_enabled ! 1023 = Complex 1 0"
proof -
  have h: "protocol (config_' wfm_enabled) \<noteq> USB" "protocol (config_' wfm_enabled) \<noteq> LSB"
    by (simp_all add: wfm_enabled_fields)
  have m: "max 0 ((10::real) powr (- (15 / 4))) = 10 powr (- (15 / 4))"
     "max (1 / 2) ((10::real) powr (- (15 / 4))) = 1 / 2"
     "max 1 ((10::real) powr (- (15 / 4))) = 1"
    using floor_bounds [of "- (15 / 4)"] by (simp_all add: max_def)
  have k: "\<forall>i<1024. designed_kernel wfm_enabled ! i =
            Complex (max (spec_bandpass_response (- 100000) 100000 2000
                            (spec_bin_frequency 1024 2000 (int i)))
                         (10 powr (- 75 / 20))) 0"
    and l: "length (designed_kernel wfm_enabled) = 1024"
    using non_ssb_kernel_design [OF wfm_enabled_valid h]
    by (simp_all add: wfm_enabled_fields)
  show ?thesis
    using h l wfm_enabled_valid
      k [rule_format, of 0] k [rule_format, of 50] k [rule_format, of 51]
      k [rule_format, of 512] k [rule_format, of 973] k [rule_format, of 1023]
    by (simp add: spec_bandpass_response_def spec_bin_frequency_def m)
qed

section \<open>A kernel of the wrong length\<close>



end
